theory Spec2Isabelle
  imports Main "HOL-Library.AList"
begin

section \<open>JSON values and the JavaScript operations the program applies to them\<close>

text \<open>
  The server keeps its data in two JSON files and never inspects the shape of what it
  reads or writes, so the data is modelled as plain JSON values. An object is an
  association list in insertion order (a parsed object has distinct keys). Numbers are
  payload only; they are represented by integers.
\<close>

datatype json =
    JNull
  | JBool bool
  | JNum int
  | JStr string
  | JArr "json list"
  | JObj "(string \<times> json) list"

text \<open>
  What a property read or an expression can yield besides a JSON value: \<open>undefined\<close>, or
  a built-in method of a prototype (a function).
\<close>

datatype jsval = Undefined | Function | Json json

text \<open>An evaluation either throws (a TypeError in every case below) or returns.\<close>

datatype 'a completion = Throw | Normal 'a

fun truthy :: "json \<Rightarrow> bool" where
  "truthy JNull = False"
| "truthy (JBool b) = b"
| "truthy (JNum n) = (n \<noteq> 0)"
| "truthy (JStr s) = (s \<noteq> [])"
| "truthy (JArr xs) = True"
| "truthy (JObj kvs) = True"

fun truthyVal :: "jsval \<Rightarrow> bool" where
  "truthyVal Undefined = False"
| "truthyVal Function = True"
| "truthyVal (Json v) = truthy v"

subsection \<open>Number.prototype.toString on an integer\<close>

definition digitChar :: "nat \<Rightarrow> char" where
  "digitChar d = ''0123456789'' ! d"

function natToString :: "nat \<Rightarrow> string" where
  "natToString n =
     (if n < 10 then [digitChar n] else natToString (n div 10) @ [digitChar (n mod 10)])"
  by pat_completeness auto
termination
  by (relation "measure (\<lambda>n. n)") auto

definition toString :: "int \<Rightarrow> string" where
  "toString n = (if n < 0 then CHR ''-'' # natToString (nat (- n)) else natToString (nat n))"

subsection \<open>Property reads and object spread\<close>

text \<open>
  \<open>getProp x k\<close> is the expression \<open>x.k\<close> for the property names the program reads
  (\<open>id\<close>, \<open>entries\<close>, \<open>settings\<close>, \<open>customTexts\<close>). Reading a property of \<open>null\<close>
  throws. An object yields its own property or \<open>undefined\<close>. Of the names read, only
  \<open>entries\<close> exists on a prototype: \<open>Array.prototype.entries\<close>, a function.
\<close>

fun getProp :: "json \<Rightarrow> string \<Rightarrow> jsval completion" where
  "getProp JNull k = Throw"
| "getProp (JObj kvs) k = Normal (case map_of kvs k of None \<Rightarrow> Undefined | Some v \<Rightarrow> Json v)"
| "getProp (JArr xs) k = Normal (if k = ''entries'' then Function else Undefined)"
| "getProp (JBool b) k = Normal Undefined"
| "getProp (JNum n) k = Normal Undefined"
| "getProp (JStr s) k = Normal Undefined"

text \<open>
  The own enumerable properties that \<open>...x\<close> copies: those of an object, the indices of
  an array, the characters of a string, nothing for the other values. (Strings are held
  as their UTF-8 bytes; for a string that is not ASCII, JavaScript counts UTF-16 units
  where this counts bytes.)
\<close>

fun ownProps :: "json \<Rightarrow> (string \<times> json) list" where
  "ownProps (JObj kvs) = kvs"
| "ownProps (JArr xs) = zip (map (\<lambda>i. toString (int i)) [0..<length xs]) xs"
| "ownProps (JStr s) = zip (map (\<lambda>i. toString (int i)) [0..<length s]) (map (\<lambda>c. JStr [c]) s)"
| "ownProps JNull = []"
| "ownProps (JBool b) = []"
| "ownProps (JNum n) = []"

fun ownPropsVal :: "jsval \<Rightarrow> (string \<times> json) list" where
  "ownPropsVal Undefined = []"
| "ownPropsVal Function = []"
| "ownPropsVal (Json v) = ownProps v"

text \<open>
  \<open>spread a b\<close> is the object literal \<open>{...a, ...b}\<close>: the properties of \<open>b\<close> are
  assigned one after the other; an existing key keeps its place and takes the new value,
  a new key goes to the end. (JavaScript lists keys that are array indices first; the
  properties below read values by key and do not depend on that.)
\<close>

fun spread :: "(string \<times> json) list \<Rightarrow> (string \<times> json) list \<Rightarrow> (string \<times> json) list" where
  "spread a [] = a"
| "spread a ((k, v) # b) = spread (AList.update k v a) b"

subsection \<open>Array methods on a JSON value\<close>

text \<open>
  Each method throws when the receiver is not an array (the method is then
  \<open>undefined\<close>, or the receiver is \<open>null\<close>), and when the callback throws.
\<close>

fun findIndexFrom :: "(json \<Rightarrow> bool completion) \<Rightarrow> json list \<Rightarrow> int \<Rightarrow> int completion" where
  "findIndexFrom p [] i = Normal (- 1)"
| "findIndexFrom p (x # xs) i =
     (case p x of
        Throw \<Rightarrow> Throw
      | Normal True \<Rightarrow> Normal i
      | Normal False \<Rightarrow> findIndexFrom p xs (i + 1))"

fun findIndex :: "(json \<Rightarrow> bool completion) \<Rightarrow> json \<Rightarrow> int completion" where
  "findIndex p (JArr xs) = findIndexFrom p xs 0"
| "findIndex p v = Throw"

fun filterList :: "(json \<Rightarrow> bool completion) \<Rightarrow> json list \<Rightarrow> json list completion" where
  "filterList p [] = Normal []"
| "filterList p (x # xs) =
     (case p x of
        Throw \<Rightarrow> Throw
      | Normal keep \<Rightarrow>
          (case filterList p xs of
             Throw \<Rightarrow> Throw
           | Normal ys \<Rightarrow> Normal (if keep then x # ys else ys)))"

fun filterArr :: "(json \<Rightarrow> bool completion) \<Rightarrow> json \<Rightarrow> json completion" where
  "filterArr p (JArr xs) = (case filterList p xs of Throw \<Rightarrow> Throw | Normal ys \<Rightarrow> Normal (JArr ys))"
| "filterArr p v = Throw"

fun mapList :: "(json \<Rightarrow> json completion) \<Rightarrow> json list \<Rightarrow> json list completion" where
  "mapList f [] = Normal []"
| "mapList f (x # xs) =
     (case f x of
        Throw \<Rightarrow> Throw
      | Normal y \<Rightarrow>
          (case mapList f xs of
             Throw \<Rightarrow> Throw
           | Normal ys \<Rightarrow> Normal (y # ys)))"

fun mapArr :: "(json \<Rightarrow> json completion) \<Rightarrow> json \<Rightarrow> json completion" where
  "mapArr f (JArr xs) = (case mapList f xs of Throw \<Rightarrow> Throw | Normal ys \<Rightarrow> Normal (JArr ys))"
| "mapArr f v = Throw"

fun unshift :: "json \<Rightarrow> json \<Rightarrow> json completion" where
  "unshift (JArr xs) x = Normal (JArr (x # xs))"
| "unshift v x = Throw"

text \<open>The callbacks \<open>entry => entry.id === id\<close> and \<open>entry => entry.id !== id\<close>.\<close>

definition idIs :: "string \<Rightarrow> json \<Rightarrow> bool completion" where
  "idIs entryId entry =
     (case getProp entry ''id'' of
        Throw \<Rightarrow> Throw
      | Normal v \<Rightarrow> Normal (v = Json (JStr entryId)))"


section \<open>The server: two JSON files behind an HTTP API\<close>

datatype path = ENTRIES_FILE | SETTINGS_FILE

text \<open>
  The data directory. A file is \<open>None\<close> when it does not exist or does not parse, and
  otherwise holds the JSON value its text parses to (\<open>JSON.stringify\<close> followed by
  \<open>JSON.parse\<close> is taken to give the value back).
\<close>

record store =
  entriesFile :: "json option"
  settingsFile :: "json option"

text \<open>
  What \<open>fs.writeFile\<close> does to a file: it writes the whole text; or it fails before it
  has opened the file, which then stays as it was; or it fails after it has truncated the
  file, and what is left of the text does not parse (no proper prefix of the text of an
  array or of an object does).
\<close>

datatype outcome = Written | Refused | Damaged

text \<open>
  What a request handler reads from outside: the clock (\<open>Date.now()\<close> in milliseconds
  and \<open>new Date().toISOString()\<close>), and what a write to each path comes to.
\<close>

record env =
  dateNow :: int
  isoNow :: string
  disk :: "path \<Rightarrow> outcome"

record response =
  status :: nat
  body :: json

definition ok :: "response \<Rightarrow> bool" where
  "ok r = (200 \<le> status r \<and> status r \<le> 299)"

definition res_json :: "json \<Rightarrow> response" where
  "res_json v = \<lparr>status = 200, body = v\<rparr>"

definition res_status_json :: "nat \<Rightarrow> json \<Rightarrow> response" where
  "res_status_json code v = \<lparr>status = code, body = v\<rparr>"

definition message :: "string \<Rightarrow> json" where
  "message m = JObj [(''message'', JStr m)]"

definition error :: "string \<Rightarrow> json" where
  "error m = JObj [(''error'', JStr m)]"

fun fileAt :: "store \<Rightarrow> path \<Rightarrow> json option" where
  "fileAt s ENTRIES_FILE = entriesFile s"
| "fileAt s SETTINGS_FILE = settingsFile s"

fun setFile :: "path \<Rightarrow> json \<Rightarrow> store \<Rightarrow> store" where
  "setFile ENTRIES_FILE v s = s\<lparr>entriesFile := Some v\<rparr>"
| "setFile SETTINGS_FILE v s = s\<lparr>settingsFile := Some v\<rparr>"

fun spoilFile :: "path \<Rightarrow> store \<Rightarrow> store" where
  "spoilFile ENTRIES_FILE s = s\<lparr>entriesFile := None\<rparr>"
| "spoilFile SETTINGS_FILE s = s\<lparr>settingsFile := None\<rparr>"

definition readJSONFile :: "store \<Rightarrow> path \<Rightarrow> json \<Rightarrow> json" where
  "readJSONFile s filePath defaultValue =
     (case fileAt s filePath of None \<Rightarrow> defaultValue | Some v \<Rightarrow> v)"

text \<open>
  \<open>JSON.stringify\<close> of \<open>undefined\<close> or of a function is \<open>undefined\<close>, which
  \<open>fs.writeFile\<close> rejects before it opens the file; like any failing write it is caught
  and reported as \<open>false\<close>.
\<close>

definition writeJSONFile :: "env \<Rightarrow> path \<Rightarrow> jsval \<Rightarrow> store \<Rightarrow> bool \<times> store" where
  "writeJSONFile e filePath data s =
     (case data of
        Json v \<Rightarrow>
          (case disk e filePath of
             Written \<Rightarrow> (True, setFile filePath v s)
           | Refused \<Rightarrow> (False, s)
           | Damaged \<Rightarrow> (False, spoilFile filePath s))
      | Undefined \<Rightarrow> (False, s)
      | Function \<Rightarrow> (False, s))"

text \<open>The default of the settings file, as both \<open>GET /api/settings\<close> and the export spell it.\<close>

definition serverDefaultSettings :: json where
  "serverDefaultSettings =
     JObj [(''theme'', JStr ''light''), (''autoSave'', JBool True),
           (''showMoodOnCalendar'', JBool True)]"

subsection \<open>Route handlers\<close>

definition get_api_entries :: "store \<Rightarrow> response \<times> store" where
  "get_api_entries s = (res_json (readJSONFile s ENTRIES_FILE (JArr [])), s)"

definition post_api_entries :: "env \<Rightarrow> json \<Rightarrow> store \<Rightarrow> response \<times> store" where
  "post_api_entries e entries s =
     (let (success, s') = writeJSONFile e ENTRIES_FILE (Json entries) s
      in if success then (res_json (message ''Entries saved successfully''), s')
         else (res_status_json 500 (error ''Failed to save entries''), s'))"

definition newEntry :: "env \<Rightarrow> json \<Rightarrow> json" where
  "newEntry e entryData =
     JObj (spread [(''id'', JStr (toString (dateNow e))),
                   (''date'', JStr (isoNow e)),
                   (''content'', JStr ''''),
                   (''mood'', JStr ''neutral'')]
                  (ownProps entryData))"

definition post_api_entries_add :: "env \<Rightarrow> json \<Rightarrow> store \<Rightarrow> response \<times> store" where
  "post_api_entries_add e entryData s =
     (let entries = readJSONFile s ENTRIES_FILE (JArr [])
      in case unshift entries (newEntry e entryData) of
           Throw \<Rightarrow> (res_status_json 500 (error ''Failed to add entry''), s)
         | Normal entries' \<Rightarrow>
             (let (success, s') = writeJSONFile e ENTRIES_FILE (Json entries') s
              in if success then (res_json (newEntry e entryData), s')
                 else (res_status_json 500 (error ''Failed to add entry''), s')))"

text \<open>The object literal \<open>{ ...entry, ...updates }\<close> of both update paths.\<close>

definition mergeOver :: "json \<Rightarrow> json \<Rightarrow> json" where
  "mergeOver entry updates = JObj (spread (ownProps entry) (ownProps updates))"

text \<open>
  The assignment \<open>entries[entryIndex] = ...\<close>. It is reached only with an index that
  \<open>findIndex\<close> has returned, which lies within the array.
\<close>

fun assignAt :: "json \<Rightarrow> int \<Rightarrow> (json \<Rightarrow> json) \<Rightarrow> json" where
  "assignAt (JArr xs) i f = JArr (xs[nat i := f (xs ! nat i)])"
| "assignAt v i f = v"

definition put_api_entries_id :: "env \<Rightarrow> string \<Rightarrow> json \<Rightarrow> store \<Rightarrow> response \<times> store" where
  "put_api_entries_id e entryId updates s =
     (let entries = readJSONFile s ENTRIES_FILE (JArr [])
      in case findIndex (idIs entryId) entries of
           Throw \<Rightarrow> (res_status_json 500 (error ''Failed to update entry''), s)
         | Normal entryIndex \<Rightarrow>
             if entryIndex = - 1 then (res_status_json 404 (error ''Entry not found''), s)
             else
               (let entries' =
                      assignAt entries entryIndex (\<lambda>old. mergeOver old updates);
                    (success, s') = writeJSONFile e ENTRIES_FILE (Json entries') s
                in if success then (res_json (message ''Entry updated successfully''), s')
                   else (res_status_json 500 (error ''Failed to update entry''), s')))"


definition get_api_settings :: "store \<Rightarrow> response \<times> store" where
  "get_api_settings s = (res_json (readJSONFile s SETTINGS_FILE serverDefaultSettings), s)"

definition post_api_settings :: "env \<Rightarrow> json \<Rightarrow> store \<Rightarrow> response \<times> store" where
  "post_api_settings e settings s =
     (let (success, s') = writeJSONFile e SETTINGS_FILE (Json settings) s
      in if success then (res_json (message ''Settings saved successfully''), s')
         else (res_status_json 500 (error ''Failed to save settings''), s'))"

definition exportData :: "env \<Rightarrow> store \<Rightarrow> json" where
  "exportData e s =
     JObj [(''entries'', readJSONFile s ENTRIES_FILE (JArr [])),
           (''settings'', readJSONFile s SETTINGS_FILE serverDefaultSettings),
           (''exportDate'', JStr (isoNow e))]"

definition get_api_export :: "env \<Rightarrow> store \<Rightarrow> response \<times> store" where
  "get_api_export e s = (res_json (exportData e s), s)"

definition post_api_import :: "env \<Rightarrow> json \<Rightarrow> store \<Rightarrow> response \<times> store" where
  "post_api_import e importData s =
     (case getProp importData ''entries'' of
        Throw \<Rightarrow> (res_status_json 500 (error ''Failed to import data''), s)
      | Normal importEntries \<Rightarrow>
          (let s1 = (if truthyVal importEntries
                     then snd (writeJSONFile e ENTRIES_FILE importEntries s) else s)
           in case getProp importData ''settings'' of
                Throw \<Rightarrow> (res_status_json 500 (error ''Failed to import data''), s1)
              | Normal importSettings \<Rightarrow>
                  (let s2 = (if truthyVal importSettings
                             then snd (writeJSONFile e SETTINGS_FILE importSettings s1) else s1)
                   in (res_json (message ''Data imported successfully''), s2))))"

subsection \<open>The JSON body parser in front of the routes\<close>

text \<open>
  A request body as the parser meets it: the number of bytes of its text, and what
  \<open>JSON.parse\<close> makes of the text (\<open>None\<close> when it is not JSON).
\<close>

record payload =
  bytes :: nat
  parsed :: "json option"

fun isObjectOrArray :: "json \<Rightarrow> bool" where
  "isObjectOrArray (JObj kvs) = True"
| "isObjectOrArray (JArr xs) = True"
| "isObjectOrArray v = False"

text \<open>
  \<open>app.use(express.json())\<close>, with no options, in front of every route. A request
  with an empty body passes with \<open>req.body = {}\<close>. A body of more than 100kb (102400
  bytes, the default limit) is answered with status 413. A body that does not parse, or
  (the parser being strict by default) parses to something other than an object or an
  array, is answered with status 400. The page sent with these statuses is read by no
  caller; it is represented by \<open>JNull\<close>.
\<close>

definition express_json ::
  "payload \<Rightarrow> (json \<Rightarrow> store \<Rightarrow> response \<times> store) \<Rightarrow> store \<Rightarrow> response \<times> store" where
  "express_json raw next s =
     (if bytes raw = 0 then next (JObj []) s
      else if 102400 < bytes raw then (res_status_json 413 JNull, s)
      else (case parsed raw of
              None \<Rightarrow> (res_status_json 400 JNull, s)
            | Some v \<Rightarrow>
                if isObjectOrArray v then next v s else (res_status_json 400 JNull, s)))"

subsection \<open>Routing a request for one entry\<close>

text \<open>
  The client asks for the URL \<open>http://localhost:3001/api/entries/\<close> followed by the id
  as it is. What the router makes of it is decided by how the browser parses the URL and
  how Express matches \<open>/api/entries/:id\<close>. The browser drops trailing spaces and
  control characters, drops tabs and newlines, ends the path at the first \<open>?\<close> or
  \<open>#\<close>, takes \<open>\\<close> for \<open>/\<close>, resolves the segments \<open>.\<close> and \<open>..\<close> (also
  written \<open>%2e\<close>), and writes some characters as \<open>%XX\<close>. Express matches the path
  without regard to case and to one trailing slash, wants exactly one non-empty segment
  for \<open>:id\<close>, and decodes it with \<open>decodeURIComponent\<close>; when that throws, the answer
  is status 400.
\<close>

datatype target = NoRoute | BadParam | Param string

definition isC0OrSpace :: "char \<Rightarrow> bool" where
  "isC0OrSpace c = ((of_char c :: nat) \<le> 32)"

definition trimTrailing :: "string \<Rightarrow> string" where
  "trimTrailing u = rev (dropWhile isC0OrSpace (rev u))"

definition isTabOrNewline :: "char \<Rightarrow> bool" where
  "isTabOrNewline c = (c = CHR 0x09 \<or> c = CHR 0x0A \<or> c = CHR 0x0D)"

definition pathPart :: "string \<Rightarrow> string" where
  "pathPart u = takeWhile (\<lambda>c. c \<noteq> CHR ''?'' \<and> c \<noteq> CHR ''#'') u"

fun segments :: "string \<Rightarrow> string \<Rightarrow> string list" where
  "segments buffer [] = [buffer]"
| "segments buffer (c # cs) =
     (if c = CHR ''/'' \<or> c = CHR 0x5C then buffer # segments [] cs
      else segments (buffer @ [c]) cs)"

definition toLowerAscii :: "char \<Rightarrow> char" where
  "toLowerAscii c =
     (case map_of (zip ''ABCDEFGHIJKLMNOPQRSTUVWXYZ'' ''abcdefghijklmnopqrstuvwxyz'') c of
        None \<Rightarrow> c
      | Some l \<Rightarrow> l)"

definition isSingleDot :: "string \<Rightarrow> bool" where
  "isSingleDot seg = (map toLowerAscii seg = ''.'' \<or> map toLowerAscii seg = ''%2e'')"

definition isDoubleDot :: "string \<Rightarrow> bool" where
  "isDoubleDot seg =
     (map toLowerAscii seg = ''..'' \<or> map toLowerAscii seg = ''.%2e''
      \<or> map toLowerAscii seg = ''%2e.'' \<or> map toLowerAscii seg = ''%2e%2e'')"

text \<open>
  The path of the URL, segment by segment: \<open>..\<close> removes the last segment, \<open>.\<close>
  adds nothing, and either leaves an empty segment behind when it is the last one.
\<close>

fun walk :: "string list \<Rightarrow> string list \<Rightarrow> string list" where
  "walk path [] = path"
| "walk path [seg] =
     (if isDoubleDot seg then butlast path @ [[]]
      else if isSingleDot seg then path @ [[]]
      else path @ [seg])"
| "walk path (seg # rest) =
     (if isDoubleDot seg then walk (butlast path) rest
      else if isSingleDot seg then walk path rest
      else walk (path @ [seg]) rest)"

definition inPathEncodeSet :: "char \<Rightarrow> bool" where
  "inPathEncodeSet c =
     ((of_char c :: nat) \<le> 32 \<or> 127 \<le> (of_char c :: nat)
      \<or> c \<in> set [CHR 0x22, CHR 0x3C, CHR 0x3E, CHR 0x60, CHR 0x7B, CHR 0x7D])"

definition hexDigit :: "nat \<Rightarrow> char" where
  "hexDigit d = ''0123456789ABCDEF'' ! d"

definition pathEncode :: "string \<Rightarrow> string" where
  "pathEncode seg =
     concat (map (\<lambda>c. if inPathEncodeSet c
                      then [CHR ''%'', hexDigit ((of_char c :: nat) div 16),
                            hexDigit ((of_char c :: nat) mod 16)]
                      else [c]) seg)"

text \<open>
  \<open>decodeURIComponent\<close>: the text is read as plain characters and escapes \<open>%XX\<close>; an
  escape below 128 is that character, the others must come in runs that are the UTF-8
  bytes of one code point; anything else throws (\<open>None\<close>).
\<close>

datatype token = Lit char | Esc nat | Bad

definition hexVal :: "char \<Rightarrow> nat option" where
  "hexVal c =
     map_of (zip ''0123456789abcdefABCDEF''
               [0, 1, 2, 3, 4, 5, 6, 7, 8, 9, 10, 11, 12, 13, 14, 15, 10, 11, 12, 13, 14, 15]) c"

fun tokens :: "string \<Rightarrow> token list" where
  "tokens [] = []"
| "tokens (c # cs) =
     (if c = CHR ''%''
      then (case cs of
              h # l # rest \<Rightarrow>
                (case hexVal h of
                   None \<Rightarrow> [Bad]
                 | Some a \<Rightarrow>
                     (case hexVal l of
                        None \<Rightarrow> [Bad]
                      | Some b \<Rightarrow> Esc (16 * a + b) # tokens rest))
            | _ \<Rightarrow> [Bad])
      else Lit c # tokens cs)"

definition leadingOnes :: "nat \<Rightarrow> nat" where
  "leadingOnes b =
     (if b < 128 then 0 else if b < 192 then 1 else if b < 224 then 2
      else if b < 240 then 3 else if b < 248 then 4 else 5)"

fun escapes :: "nat \<Rightarrow> token list \<Rightarrow> nat list option" where
  "escapes 0 ts = Some []"
| "escapes (Suc n) (Esc b # ts) =
     (case escapes n ts of None \<Rightarrow> None | Some bs \<Rightarrow> Some (b # bs))"
| "escapes (Suc n) ts = None"

definition continuation :: "nat \<Rightarrow> bool" where
  "continuation b = (128 \<le> b \<and> b < 192)"

fun validUtf8 :: "nat list \<Rightarrow> bool" where
  "validUtf8 [a, b] = (194 \<le> a \<and> a < 224 \<and> continuation b)"
| "validUtf8 [a, b, c] =
     (224 \<le> a \<and> a < 240 \<and> continuation b \<and> continuation c
      \<and> (a = 224 \<longrightarrow> 160 \<le> b) \<and> (a = 237 \<longrightarrow> b < 160))"
| "validUtf8 [a, b, c, d] =
     (240 \<le> a \<and> a < 245 \<and> continuation b \<and> continuation c \<and> continuation d
      \<and> (a = 240 \<longrightarrow> 144 \<le> b) \<and> (a = 244 \<longrightarrow> b < 144))"
| "validUtf8 bs = False"

fun decodeTokens :: "token list \<Rightarrow> string option" where
  "decodeTokens [] = Some []"
| "decodeTokens (Bad # ts) = None"
| "decodeTokens (Lit c # ts) =
     (case decodeTokens ts of None \<Rightarrow> None | Some cs \<Rightarrow> Some (c # cs))"
| "decodeTokens (Esc b # ts) =
     (if leadingOnes b = 0
      then (case decodeTokens ts of None \<Rightarrow> None | Some cs \<Rightarrow> Some (char_of b # cs))
      else if leadingOnes b = 1 \<or> 4 < leadingOnes b then None
      else (case escapes (leadingOnes b - 1) ts of
              None \<Rightarrow> None
            | Some bs \<Rightarrow>
                if validUtf8 (b # bs)
                then (case decodeTokens (drop (leadingOnes b - 1) ts) of
                        None \<Rightarrow> None
                      | Some cs \<Rightarrow> Some (map char_of (b # bs) @ cs))
                else None))"

definition decodeURIComponent :: "string \<Rightarrow> string option" where
  "decodeURIComponent u = decodeTokens (tokens u)"

definition matchEntriesId :: "string list \<Rightarrow> string option" where
  "matchEntriesId path =
     (case path of
        [a, b, x] \<Rightarrow>
          if map toLowerAscii a = ''api'' \<and> map toLowerAscii b = ''entries'' \<and> x \<noteq> []
          then Some x else None
      | [a, b, x, t] \<Rightarrow>
          if map toLowerAscii a = ''api'' \<and> map toLowerAscii b = ''entries'' \<and> x \<noteq> []
             \<and> t = []
          then Some x else None
      | _ \<Rightarrow> None)"

definition entriesUrl :: "string \<Rightarrow> target" where
  "entriesUrl entryId =
     (case matchEntriesId
             (walk [''api'', ''entries'']
                (segments []
                   (pathPart (filter (\<lambda>c. \<not> isTabOrNewline c) (trimTrailing entryId))))) of
        None \<Rightarrow> NoRoute
      | Some seg \<Rightarrow>
          (case decodeURIComponent (pathEncode seg) of
             None \<Rightarrow> BadParam
           | Some p \<Rightarrow> Param p))"

text \<open>
  Ids made of ASCII letters, digits, \<open>-\<close> and \<open>_\<close> only; the ids that the server
  assigns, decimal numbers, are among them.
\<close>

definition plainChar :: "char \<Rightarrow> bool" where
  "plainChar c =
     (c \<in> set ''ABCDEFGHIJKLMNOPQRSTUVWXYZabcdefghijklmnopqrstuvwxyz0123456789-_'')"

definition plainId :: "string \<Rightarrow> bool" where
  "plainId u = (u \<noteq> [] \<and> list_all plainChar u)"

text \<open>
  The router, for a method that only \<open>/api/entries/:id\<close> serves: no match is answered
  with status 404 and a parameter that does not decode with status 400, by pages that no
  caller reads.
\<close>

definition entries_id ::
  "target \<Rightarrow> (string \<Rightarrow> store \<Rightarrow> response \<times> store) \<Rightarrow> store \<Rightarrow> response \<times> store" where
  "entries_id t route s =
     (case t of
        NoRoute \<Rightarrow> (res_status_json 404 JNull, s)
      | BadParam \<Rightarrow> (res_status_json 400 JNull, s)
      | Param p \<Rightarrow> route p s)"

section \<open>The client: DataService\<close>

text \<open>
  What the browser side writes out: \<open>console.error\<close> lines, and \<open>alert\<close> boxes (named
  here by what their text says).
\<close>

datatype alert = UpdateFailed | ImportSucceeded | ImportFailed

datatype event = ConsoleError string | Alert alert

text \<open>
  \<open>fetch\<close> either reaches the server, which runs the route and answers, or rejects
  without the request having been sent.
\<close>

definition fetch ::
  "bool \<Rightarrow> (store \<Rightarrow> response \<times> store) \<Rightarrow> store \<Rightarrow> response option \<times> store" where
  "fetch online route s =
     (if online then (let (r, s') = route s in (Some r, s')) else (None, s))"

text \<open>
  \<open>JSON.stringify\<close> with one argument, for the size of the bodies that the client
  sends: no white space, strings in double quotes with \<open>"\<close>, \<open>\\<close> and the control
  characters escaped, numbers in decimal. The body that is sent is this text; the server
  parses it back to the value.
\<close>

fun escapeChar :: "char \<Rightarrow> string" where
  "escapeChar c =
     (if c = CHR 0x22 then [CHR 0x5C, CHR 0x22]
      else if c = CHR 0x5C then [CHR 0x5C, CHR 0x5C]
      else if c = CHR 0x08 then [CHR 0x5C, CHR ''b'']
      else if c = CHR 0x0C then [CHR 0x5C, CHR ''f'']
      else if c = CHR 0x0A then [CHR 0x5C, CHR ''n'']
      else if c = CHR 0x0D then [CHR 0x5C, CHR ''r'']
      else if c = CHR 0x09 then [CHR 0x5C, CHR ''t'']
      else if (of_char c :: nat) < 32
      then [CHR 0x5C, CHR ''u'', CHR ''0'', CHR ''0'',
            ''0123456789abcdef'' ! ((of_char c :: nat) div 16),
            ''0123456789abcdef'' ! ((of_char c :: nat) mod 16)]
      else [c])"

definition quote :: "string \<Rightarrow> string" where
  "quote s = CHR 0x22 # concat (map escapeChar s) @ [CHR 0x22]"

fun commaSep :: "string list \<Rightarrow> string" where
  "commaSep [] = []"
| "commaSep [x] = x"
| "commaSep (x # y # zs) = x @ CHR '','' # commaSep (y # zs)"

fun JSON_stringify :: "json \<Rightarrow> string" where
  "JSON_stringify JNull = ''null''"
| "JSON_stringify (JBool b) = (if b then ''true'' else ''false'')"
| "JSON_stringify (JNum n) = toString n"
| "JSON_stringify (JStr s) = quote s"
| "JSON_stringify (JArr xs) = CHR ''['' # commaSep (map JSON_stringify xs) @ '']''"
| "JSON_stringify (JObj kvs) =
     CHR ''{'' # commaSep (map (\<lambda>kv. quote (fst kv) @ CHR '':'' # JSON_stringify (snd kv)) kvs)
       @ ''}''"

definition sent :: "json \<Rightarrow> payload" where
  "sent v = \<lparr>bytes = length (JSON_stringify v), parsed = Some v\<rparr>"

text \<open>The text of a value is within the limit of the body parser.\<close>

definition fits :: "json \<Rightarrow> bool" where
  "fits v = (length (JSON_stringify v) \<le> 102400)"

definition DataService_getEntries :: "bool \<Rightarrow> store \<Rightarrow> (json \<times> event list) \<times> store" where
  "DataService_getEntries online s =
     (let (r, s') = fetch online get_api_entries s
      in case r of
           None \<Rightarrow> ((JArr [], [ConsoleError ''Error fetching entries:'']), s')
         | Some response \<Rightarrow>
             if \<not> ok response then ((JArr [], [ConsoleError ''Error fetching entries:'']), s')
             else ((body response, []), s'))"

definition DataService_saveEntries ::
  "bool \<Rightarrow> env \<Rightarrow> json \<Rightarrow> store \<Rightarrow> (bool \<times> event list) \<times> store" where
  "DataService_saveEntries online e entries s =
     (let (r, s') = fetch online (express_json (sent entries) (post_api_entries e)) s
      in case r of
           None \<Rightarrow> ((False, [ConsoleError ''Error saving entries:'']), s')
         | Some response \<Rightarrow> ((ok response, []), s'))"

definition DataService_addEntry ::
  "bool \<Rightarrow> env \<Rightarrow> json \<Rightarrow> store \<Rightarrow> (json option \<times> event list) \<times> store" where
  "DataService_addEntry online e entry s =
     (let (r, s') = fetch online (express_json (sent entry) (post_api_entries_add e)) s
      in case r of
           None \<Rightarrow> ((None, [ConsoleError ''Error adding entry:'']), s')
         | Some response \<Rightarrow>
             if \<not> ok response then ((None, [ConsoleError ''Error adding entry:'']), s')
             else ((Some (body response), []), s'))"

definition DataService_updateEntry ::
  "bool \<Rightarrow> env \<Rightarrow> string \<Rightarrow> json \<Rightarrow> store \<Rightarrow> (bool \<times> event list) \<times> store" where
  "DataService_updateEntry online e entryId updates s =
     (let (r, s') =
            fetch online
              (express_json (sent updates)
                 (\<lambda>body. entries_id (entriesUrl entryId) (\<lambda>p. put_api_entries_id e p body))) s
      in case r of
           None \<Rightarrow> ((False, [ConsoleError ''Error updating entry:'']), s')
         | Some response \<Rightarrow> ((ok response, []), s'))"


text \<open>The five default texts, as the UTF-8 bytes of the source's string literals.\<close>

definition appTitle_default :: string where
  "appTitle_default =
     [CHR 0xE7, CHR 0x94, CHR 0x9F, CHR 0xE6, CHR 0xB4, CHR 0xBB, CHR 0xE8, CHR 0xAE,
      CHR 0xB0, CHR 0xE5, CHR 0xBD, CHR 0x95, CHR 0xE5, CHR 0x99, CHR 0xA8]"

definition appSubtitle_default :: string where
  "appSubtitle_default =
     [CHR 0xE8, CHR 0xAE, CHR 0xB0, CHR 0xE5, CHR 0xBD, CHR 0x95, CHR 0xE7, CHR 0xBE,
      CHR 0x8E, CHR 0xE5, CHR 0xA5, CHR 0xBD, CHR 0xE6, CHR 0x97, CHR 0xB6, CHR 0xE5,
      CHR 0x88, CHR 0xBB, CHR 0xEF, CHR 0xBC, CHR 0x8C, CHR 0xE8, CHR 0xBF, CHR 0xBD,
      CHR 0xE8, CHR 0xB8, CHR 0xAA, CHR 0xE5, CHR 0xBF, CHR 0x83, CHR 0xE6, CHR 0x83,
      CHR 0x85, CHR 0xE5, CHR 0x8F, CHR 0x98, CHR 0xE5, CHR 0x8C, CHR 0x96, CHR 0xEF,
      CHR 0xBC, CHR 0x8C, CHR 0xE5, CHR 0x8F, CHR 0x8D, CHR 0xE6, CHR 0x80, CHR 0x9D,
      CHR 0xE4, CHR 0xBA, CHR 0xBA, CHR 0xE7, CHR 0x94, CHR 0x9F, CHR 0xE6, CHR 0x97,
      CHR 0x85, CHR 0xE7, CHR 0xA8, CHR 0x8B]"

definition heroTitle_default :: string where
  "heroTitle_default =
     [CHR 0xE4, CHR 0xBD, CHR 0xA0, CHR 0xE7, CHR 0x9A, CHR 0x84, CHR 0xE7, CHR 0x94,
      CHR 0x9F, CHR 0xE6, CHR 0xB4, CHR 0xBB, CHR 0xEF, CHR 0xBC, CHR 0x8C, CHR 0xE4,
      CHR 0xBD, CHR 0xA0, CHR 0xE7, CHR 0x9A, CHR 0x84, CHR 0xE6, CHR 0x95, CHR 0x85,
      CHR 0xE4, CHR 0xBA, CHR 0x8B]"

definition heroSubtitle_default :: string where
  "heroSubtitle_default =
     [CHR 0xE8, CHR 0xAE, CHR 0xB0, CHR 0xE5, CHR 0xBD, CHR 0x95, CHR 0xE7, CHR 0xBE,
      CHR 0x8E, CHR 0xE5, CHR 0xA5, CHR 0xBD, CHR 0xE6, CHR 0x97, CHR 0xB6, CHR 0xE5,
      CHR 0x88, CHR 0xBB, CHR 0xEF, CHR 0xBC, CHR 0x8C, CHR 0xE8, CHR 0xBF, CHR 0xBD,
      CHR 0xE8, CHR 0xB8, CHR 0xAA, CHR 0xE5, CHR 0xBF, CHR 0x83, CHR 0xE6, CHR 0x83,
      CHR 0x85, CHR 0xE5, CHR 0x8F, CHR 0x98, CHR 0xE5, CHR 0x8C, CHR 0x96, CHR 0xEF,
      CHR 0xBC, CHR 0x8C, CHR 0xE5, CHR 0x8F, CHR 0x8D, CHR 0xE6, CHR 0x80, CHR 0x9D,
      CHR 0xE4, CHR 0xBA, CHR 0xBA, CHR 0xE7, CHR 0x94, CHR 0x9F, CHR 0xE6, CHR 0x97,
      CHR 0x85, CHR 0xE7, CHR 0xA8, CHR 0x8B]"

definition startButtonText_default :: string where
  "startButtonText_default =
     [CHR 0xE5, CHR 0xBC, CHR 0x80, CHR 0xE5, CHR 0xA7, CHR 0x8B, CHR 0xE5, CHR 0x86,
      CHR 0x99, CHR 0xE4, CHR 0xBD, CHR 0x9C]"

definition defaultCustomTexts :: "(string \<times> json) list" where
  "defaultCustomTexts =
     [(''appTitle'', JStr appTitle_default),
      (''appSubtitle'', JStr appSubtitle_default),
      (''heroTitle'', JStr heroTitle_default),
      (''heroSubtitle'', JStr heroSubtitle_default),
      (''startButtonText'', JStr startButtonText_default)]"

definition defaultSettings :: "(string \<times> json) list" where
  "defaultSettings =
     [(''theme'', JStr ''light''),
      (''autoSave'', JBool True),
      (''showMoodOnCalendar'', JBool True),
      (''customTexts'', JObj defaultCustomTexts)]"

definition DataService_getSettings :: "bool \<Rightarrow> store \<Rightarrow> (json \<times> event list) \<times> store" where
  "DataService_getSettings online s =
     (let (r, s') = fetch online get_api_settings s
      in case r of
           None \<Rightarrow> ((JObj defaultSettings, [ConsoleError ''Error fetching settings:'']), s')
         | Some response \<Rightarrow>
             if \<not> ok response
             then ((JObj defaultSettings, [ConsoleError ''Error fetching settings:'']), s')
             else ((body response, []), s'))"

definition DataService_saveSettings ::
  "bool \<Rightarrow> env \<Rightarrow> json \<Rightarrow> store \<Rightarrow> (bool \<times> event list) \<times> store" where
  "DataService_saveSettings online e settings s =
     (let (r, s') = fetch online (express_json (sent settings) (post_api_settings e)) s
      in case r of
           None \<Rightarrow> ((False, [ConsoleError ''Error saving settings:'']), s')
         | Some response \<Rightarrow> ((ok response, []), s'))"

definition DataService_exportData ::
  "bool \<Rightarrow> env \<Rightarrow> store \<Rightarrow> (json option \<times> event list) \<times> store" where
  "DataService_exportData online e s =
     (let (r, s') = fetch online (get_api_export e) s
      in case r of
           None \<Rightarrow> ((None, [ConsoleError ''Error exporting data:'']), s')
         | Some response \<Rightarrow>
             if \<not> ok response then ((None, [ConsoleError ''Error exporting data:'']), s')
             else ((Some (body response), []), s'))"

definition DataService_importData ::
  "bool \<Rightarrow> env \<Rightarrow> payload \<Rightarrow> store \<Rightarrow> (bool \<times> event list) \<times> store" where
  "DataService_importData online e data s =
     (let (r, s') = fetch online (express_json data (post_api_import e)) s
      in case r of
           None \<Rightarrow> ((False, [ConsoleError ''Error importing data:'']), s')
         | Some response \<Rightarrow> ((ok response, []), s'))"

section \<open>The client: the state held by AppProvider\<close>

record AppState =
  entries :: json
  settings :: json
  isLoading :: bool

text \<open>
  The effect that the provider registers on \<open>[settings]\<close>. It runs after every render
  in which \<open>settings\<close> is another object than before, and sends that object to
  \<open>DataService.saveSettings\<close> unless it is the initial \<open>defaultSettings\<close> object itself,
  which no object given to \<open>setSettings\<close> is. What \<open>saveSettings\<close> returns is dropped.
\<close>

definition settingsEffect :: "bool \<Rightarrow> env \<Rightarrow> json \<Rightarrow> store \<Rightarrow> event list \<times> store" where
  "settingsEffect online e current s =
     (let ((success, log), s') = DataService_saveSettings online e current s
      in (log, s'))"

text \<open>The object literal that \<open>loadData\<close> gives to \<open>setSettings\<close>.\<close>

definition mergeSettings :: "json \<Rightarrow> jsval \<Rightarrow> json" where
  "mergeSettings settingsData customTexts =
     JObj (AList.update ''customTexts''
             (JObj (spread defaultCustomTexts (ownPropsVal customTexts)))
             (spread defaultSettings (ownProps settingsData)))"

text \<open>
  \<open>loadData\<close>: both reads are awaited together, then \<open>setEntries\<close> runs, then the
  argument of \<open>setSettings\<close> is evaluated; reading \<open>settingsData.customTexts\<close> throws
  when the settings read gave \<open>null\<close>, which the \<open>catch\<close> logs. The flag \<open>isLoading\<close>
  is back to \<open>false\<close> at the end either way. When \<open>setSettings\<close> has run, the effect
  above follows, with its own request (\<open>online3\<close>, \<open>e3\<close>); the store returned is the
  store after it.
\<close>

definition loadData ::
  "bool \<Rightarrow> bool \<Rightarrow> bool \<Rightarrow> env \<Rightarrow> store \<times> AppState
     \<Rightarrow> (AppState \<times> event list) \<times> store" where
  "loadData online1 online2 online3 e3 w =
     (let (s, st) = w;
          ((entriesData, log1), s1) = DataService_getEntries online1 s;
          ((settingsData, log2), s2) = DataService_getSettings online2 s1;
          st1 = st\<lparr>entries := entriesData\<rparr>
      in case getProp settingsData ''customTexts'' of
           Throw \<Rightarrow>
             ((st1\<lparr>isLoading := False\<rparr>,
               log1 @ log2 @ [ConsoleError ''Error loading data:'']), s2)
         | Normal customTexts \<Rightarrow>
             (let (log3, s3) =
                    settingsEffect online3 e3 (mergeSettings settingsData customTexts) s2
              in ((st1\<lparr>settings := mergeSettings settingsData customTexts,
                       isLoading := False\<rparr>,
                   log1 @ log2 @ log3), s3)))"

text \<open>
  \<open>updateEntry\<close> of AppProvider. The new list is computed by the state updater
  \<open>prev => prev.map(...)\<close>; when that throws there is no next state.
\<close>

definition mergeIfId :: "string \<Rightarrow> json \<Rightarrow> json \<Rightarrow> json completion" where
  "mergeIfId entryId updates entry =
     (case idIs entryId entry of
        Throw \<Rightarrow> Throw
      | Normal b \<Rightarrow>
          Normal (if b then mergeOver entry updates else entry))"

definition updateEntry ::
  "bool \<Rightarrow> env \<Rightarrow> string \<Rightarrow> json \<Rightarrow> store \<times> AppState
     \<Rightarrow> (AppState completion \<times> event list) \<times> store" where
  "updateEntry online e entryId updates w =
     (let (s, st) = w;
          ((success, log), s') = DataService_updateEntry online e entryId updates s
      in if success
         then (case mapArr (mergeIfId entryId updates) (entries st) of
                 Throw \<Rightarrow> ((Throw, log), s')
               | Normal es \<Rightarrow> ((Normal (st\<lparr>entries := es, isLoading := False\<rparr>), log), s'))
         else ((Normal (st\<lparr>isLoading := False\<rparr>), log @ [Alert UpdateFailed]), s'))"

text \<open>
  \<open>importData\<close> of AppProvider, from the moment the chosen file has been read as text;
  the text is the body of the import request as it is. The events are listed in the order
  of the calls; when the effect's line appears relative to the alert is not fixed by the
  code.
\<close>

definition importData ::
  "bool \<Rightarrow> env \<Rightarrow> bool \<Rightarrow> bool \<Rightarrow> bool \<Rightarrow> env \<Rightarrow> payload \<Rightarrow> store \<times> AppState
     \<Rightarrow> (AppState \<times> event list) \<times> store" where
  "importData online e online1 online2 online3 e3 result w =
     (let (s, st) = w;
          ((success, log), s') = DataService_importData online e result s
      in if success
         then (let ((st', log'), s'') = loadData online1 online2 online3 e3 (s', st)
               in ((st', log @ log' @ [Alert ImportSucceeded]), s''))
         else ((st, log @ [Alert ImportFailed]), s'))"

section \<open>Sample data\<close>

text \<open>
  An entry with the id that the setup guide shows in \<open>entries.json\<close>, as the server
  creates it at that millisecond; a store that holds it, a store before the first write,
  a client state that mirrors the former, and an environment whose clock reads that
  instant and whose disk completes every write.
\<close>

definition sampleEntry :: json where
  "sampleEntry =
     JObj [(''id'', JStr ''1705123456789''),
           (''date'', JStr ''2024-01-13T05:24:16.789Z''),
           (''content'', JStr ''fine weather''),
           (''mood'', JStr ''happy'')]"

definition sampleStore :: store where
  "sampleStore = \<lparr>entriesFile = Some (JArr [sampleEntry]), settingsFile = None\<rparr>"

definition emptyStore :: store where
  "emptyStore = \<lparr>entriesFile = None, settingsFile = None\<rparr>"

definition sampleState :: AppState where
  "sampleState =
     \<lparr>entries = JArr [sampleEntry], settings = JObj defaultSettings, isLoading = False\<rparr>"

definition sampleEnv :: env where
  "sampleEnv =
     \<lparr>dateNow = 1705123456789, isoNow = ''2024-01-13T05:24:16.789Z'',
      disk = (\<lambda>p. Written)\<rparr>"

section \<open>Properties\<close>

subsection \<open>Decimal strings and object spread\<close>

declare natToString.simps [simp del]

lemma natToString_nonempty: "natToString n \<noteq> []"
  by (subst natToString.simps) simp

lemma toString_nonempty: "toString n \<noteq> []"
  by (simp add: toString_def natToString_nonempty)

lemma toString_sample: "toString 1705123456789 = ''1705123456789''"
  by (simp add: toString_def natToString.simps digitChar_def)

lemma map_of_spread_notin:
  "k \<notin> fst ` set b \<Longrightarrow> map_of (spread a b) k = map_of a k"
proof (induction b arbitrary: a)
  case Nil
  then show ?case by simp
next
  case (Cons kv b)
  obtain k' v' where kv: "kv = (k', v')" by (cases kv)
  with Cons.prems have "k \<noteq> k'" and "k \<notin> fst ` set b" by auto
  then show ?case using Cons.IH [of "AList.update k' v' a"]
    by (simp add: kv update_conv')
qed

lemma map_of_spread_in:
  "distinct (map fst b) \<Longrightarrow> (k, v) \<in> set b \<Longrightarrow> map_of (spread a b) k = Some v"
proof (induction b arbitrary: a)
  case Nil
  then show ?case by simp
next
  case (Cons kv b)
  obtain k' v' where kv: "kv = (k', v')" by (cases kv)
  show ?case
  proof (cases "(k, v) = (k', v')")
    case True
    with Cons.prems kv have "k \<notin> fst ` set b" by auto
    then have "map_of (spread (AList.update k v a) b) k = map_of (AList.update k v a) k"
      by (rule map_of_spread_notin)
    with True kv show ?thesis by (simp add: update_conv')
  next
    case False
    with Cons.prems kv have "(k, v) \<in> set b" and "distinct (map fst b)" by auto
    then show ?thesis using Cons.IH [of "AList.update k' v' a"] by (simp add: kv)
  qed
qed

subsection \<open>findIndex\<close>


lemma findIndexFrom_found:
  "findIndexFrom p xs i = Normal j \<Longrightarrow> 0 \<le> i \<Longrightarrow> j \<noteq> - 1 \<Longrightarrow>
   i \<le> j \<and> nat (j - i) < length xs \<and> p (xs ! nat (j - i)) = Normal True
   \<and> (\<forall>m < nat (j - i). p (xs ! m) = Normal False)"
proof (induction xs arbitrary: i)
  case Nil
  then show ?case by simp
next
  case (Cons x xs)
  show ?case
  proof (cases "p x")
    case Throw
    with Cons.prems show ?thesis by simp
  next
    case (Normal b)
    show ?thesis
    proof (cases b)
      case True
      with Normal Cons.prems show ?thesis by simp
    next
      case False
      with Normal Cons.prems have rec: "findIndexFrom p xs (i + 1) = Normal j" by simp
      from Cons.IH [OF rec] Cons.prems
      have ih: "i + 1 \<le> j" "nat (j - (i + 1)) < length xs"
        "p (xs ! nat (j - (i + 1))) = Normal True"
        "\<forall>m < nat (j - (i + 1)). p (xs ! m) = Normal False"
        by auto
      have suc: "nat (j - i) = Suc (nat (j - (i + 1)))" using ih(1) by simp
      have "\<forall>m < nat (j - i). p ((x # xs) ! m) = Normal False"
      proof (intro allI impI)
        fix m assume "m < nat (j - i)"
        then show "p ((x # xs) ! m) = Normal False"
          using ih(4) Normal False suc by (cases m) auto
      qed
      then show ?thesis using ih suc by simp
    qed
  qed
qed

subsection \<open>filter and map\<close>




lemma mapList_total:
  "\<forall>x\<in>set xs. f x = Normal (g x) \<Longrightarrow> mapList f xs = Normal (map g xs)"
  by (induction xs) auto

subsection \<open>The URL of an entry, and the size of a body\<close>

lemma plainChar_facts:
  assumes "plainChar c"
  shows "\<not> isC0OrSpace c" "\<not> isTabOrNewline c" "c \<noteq> CHR ''?''" "c \<noteq> CHR ''#''"
    "c \<noteq> CHR ''/''" "c \<noteq> CHR 0x5C" "c \<noteq> CHR ''%''" "\<not> inPathEncodeSet c"
    "toLowerAscii c \<noteq> CHR ''.''" "toLowerAscii c \<noteq> CHR ''%''"
  using assms
  by (auto simp: plainChar_def isC0OrSpace_def isTabOrNewline_def inPathEncodeSet_def
        toLowerAscii_def)

lemma trimTrailing_plain:
  assumes "u \<noteq> []" "\<not> isC0OrSpace (last u)"
  shows "trimTrailing u = u"
proof -
  from assms(1) obtain c cs where r: "rev u = c # cs"
    by (cases "rev u") auto
  then have "last u = c"
    by (metis last_rev list.sel(1) rev_rev_ident hd_rev)
  with assms(2) r have "dropWhile isC0OrSpace (rev u) = rev u" by simp
  then show ?thesis by (simp add: trimTrailing_def)
qed

lemma segments_plain:
  "\<forall>c\<in>set u. c \<noteq> CHR ''/'' \<and> c \<noteq> CHR 0x5C \<Longrightarrow> segments buffer u = [buffer @ u]"
  by (induction u arbitrary: buffer) auto

lemma pathEncode_plain: "\<forall>c\<in>set u. \<not> inPathEncodeSet c \<Longrightarrow> pathEncode u = u"
  by (induction u) (auto simp: pathEncode_def)

lemma tokens_plain: "\<forall>c\<in>set u. c \<noteq> CHR ''%'' \<Longrightarrow> tokens u = map Lit u"
  by (induction u) auto

lemma decodeTokens_Lit: "decodeTokens (map Lit u) = Some u"
  by (induction u) auto

lemma decodeURIComponent_plain: "\<forall>c\<in>set u. c \<noteq> CHR ''%'' \<Longrightarrow> decodeURIComponent u = Some u"
  by (simp add: decodeURIComponent_def tokens_plain decodeTokens_Lit)

lemma not_dot_plain:
  assumes "u \<noteq> []" "\<forall>c\<in>set u. plainChar c"
  shows "\<not> isSingleDot u" "\<not> isDoubleDot u"
proof -
  from assms obtain c cs where u: "u = c # cs" and c: "plainChar c"
    by (cases u) auto
  from plainChar_facts(9,10) [OF c] u
  show "\<not> isSingleDot u" "\<not> isDoubleDot u"
    by (auto simp: isSingleDot_def isDoubleDot_def)
qed

lemma plain_id_travels:
  assumes "plainId u"
  shows "entriesUrl u = Param u"
proof -
  from assms have ne: "u \<noteq> []" and all: "\<forall>c\<in>set u. plainChar c"
    by (auto simp: plainId_def list_all_iff)
  from ne all have "plainChar (last u)" by simp
  then have t: "trimTrailing u = u"
    using ne by (intro trimTrailing_plain) (auto dest: plainChar_facts(1))
  have f: "filter (\<lambda>c. \<not> isTabOrNewline c) u = u"
    using all by (auto simp: filter_id_conv dest: plainChar_facts(2))
  have p: "pathPart u = u"
    using all by (auto simp: pathPart_def takeWhile_eq_all_conv dest: plainChar_facts(3,4))
  have s: "segments [] u = [u]"
    using all segments_plain [of u "[]"] by (auto dest: plainChar_facts(5,6))
  have w: "walk [''api'', ''entries''] [u] = [''api'', ''entries'', u]"
    using not_dot_plain [OF ne all] by simp
  have m: "matchEntriesId [''api'', ''entries'', u] = Some u"
    using ne by (simp add: matchEntriesId_def toLowerAscii_def)
  have e: "pathEncode u = u"
    using all by (intro pathEncode_plain) (auto dest: plainChar_facts(8))
  have d: "decodeURIComponent u = Some u"
    using all by (intro decodeURIComponent_plain) (auto dest: plainChar_facts(7))
  show ?thesis
    by (simp add: entriesUrl_def t f p s w m e d del: walk.simps)
qed

lemma digitChar_plain: "d < 10 \<Longrightarrow> plainChar (digitChar d)"
proof -
  assume "d < 10"
  then have "d \<in> {0, 1, 2, 3, 4, 5, 6, 7, 8, 9}" by auto
  then show ?thesis
    by (auto simp: digitChar_def plainChar_def)
qed

lemma natToString_plain: "list_all plainChar (natToString n)"
proof (induction n rule: natToString.induct)
  case (1 n)
  show ?case
  proof (cases "n < 10")
    case True
    then show ?thesis
      by (subst natToString.simps) (simp add: digitChar_plain)
  next
    case False
    with "1" have "list_all plainChar (natToString (n div 10))" by simp
    moreover have "plainChar (digitChar (n mod 10))"
      by (rule digitChar_plain) simp
    ultimately show ?thesis
      using False by (subst natToString.simps) simp
  qed
qed

lemma assigned_id_plain: "plainId (toString n)"
  by (simp add: plainId_def toString_nonempty)
     (simp add: toString_def natToString_plain plainChar_def)

lemma quote_nonempty: "quote s \<noteq> []"
  by (simp add: quote_def)

lemma JSON_stringify_nonempty: "JSON_stringify v \<noteq> []"
  by (cases v) (simp_all add: quote_nonempty toString_nonempty)

lemma express_json_sent:
  "express_json (sent v) next s =
     (if fits v \<and> isObjectOrArray v then next v s
      else (res_status_json (if fits v then 400 else 413) JNull, s))"
  using JSON_stringify_nonempty [of v]
  by (auto simp: express_json_def sent_def fits_def)

lemma not_ok_refusals:
  "\<not> ok (res_status_json 400 v)" "\<not> ok (res_status_json 404 v)"
  "\<not> ok (res_status_json 413 v)" "\<not> ok (res_status_json 500 v)"
  "ok (res_json v)"
  by (simp_all add: ok_def res_status_json_def res_json_def)

subsection \<open>Bulk save, and the round trip of export and import\<close>

lemma saveEntries_result:
  "DataService_saveEntries online e v s =
     (if online
      then (if fits v \<and> isObjectOrArray v
            then (case disk e ENTRIES_FILE of
                    Written \<Rightarrow> ((True, []), s\<lparr>entriesFile := Some v\<rparr>)
                  | Refused \<Rightarrow> ((False, []), s)
                  | Damaged \<Rightarrow> ((False, []), s\<lparr>entriesFile := None\<rparr>))
            else ((False, []), s))
      else ((False, [ConsoleError ''Error saving entries:'']), s))"
  by (simp add: DataService_saveEntries_def fetch_def express_json_sent post_api_entries_def
        writeJSONFile_def not_ok_refusals split: outcome.splits)

text \<open>
  Claim C10. Besides the routes of the interface table the server has a bulk save,
  \<open>POST /api/entries\<close>, reached through \<open>DataService.saveEntries\<close>. It writes the
  array it is given over the entries file as it is. With the server reachable, the text
  of the array within the body parser's limit and the write completed, it succeeds; and
  whenever it reports success the entries file holds exactly the value sent (no id or
  date assigned, nothing validated or merged), the settings file is untouched, and a
  following read of the entries returns that value.
\<close>

theorem saveEntries_replaces_collection:
  "(online \<and> disk e ENTRIES_FILE = Written \<and> fits (JArr xs) \<longrightarrow>
      fst (fst (DataService_saveEntries online e (JArr xs) s)))
   \<and> (fst (fst (DataService_saveEntries online e es s)) \<longrightarrow>
        entriesFile (snd (DataService_saveEntries online e es s)) = Some es
      \<and> settingsFile (snd (DataService_saveEntries online e es s)) = settingsFile s
      \<and> fst (get_api_entries (snd (DataService_saveEntries online e es s))) = res_json es
      \<and> fst (fst (DataService_getEntries True (snd (DataService_saveEntries online e es s)))) = es)"
proof (intro conjI impI)
  assume "online \<and> disk e ENTRIES_FILE = Written \<and> fits (JArr xs)"
  then show "fst (fst (DataService_saveEntries online e (JArr xs) s))"
    by (simp add: saveEntries_result)
next
  assume ok: "fst (fst (DataService_saveEntries online e es s))"
  then have after: "snd (DataService_saveEntries online e es s) = s\<lparr>entriesFile := Some es\<rparr>"
    by (auto simp: saveEntries_result split: if_splits outcome.splits)
  show "entriesFile (snd (DataService_saveEntries online e es s)) = Some es"
    by (simp add: after)
  show "settingsFile (snd (DataService_saveEntries online e es s)) = settingsFile s"
    by (simp add: after)
  show "fst (get_api_entries (snd (DataService_saveEntries online e es s))) = res_json es"
    by (simp add: after get_api_entries_def readJSONFile_def)
  show "fst (fst (DataService_getEntries True (snd (DataService_saveEntries online e es s)))) = es"
    by (simp add: after DataService_getEntries_def fetch_def get_api_entries_def
          readJSONFile_def res_json_def ok_def)
qed

theorem saveEntries_replaces_collection_witness:
  "disk sampleEnv ENTRIES_FILE = Written
   \<and> fits (JArr [JNum 7, sampleEntry])
   \<and> fst (fst (DataService_saveEntries True sampleEnv (JArr [JNum 7, sampleEntry]) sampleStore))
   \<and> fst (fst (DataService_getEntries True
        (snd (DataService_saveEntries True sampleEnv (JArr [JNum 7, sampleEntry]) sampleStore))))
      = JArr [JNum 7, sampleEntry]"
proof -
  have w: "disk sampleEnv ENTRIES_FILE = Written"
    by (simp add: sampleEnv_def)
  have f: "fits (JArr [JNum 7, sampleEntry])"
    by (simp add: fits_def sampleEntry_def quote_def toString_def natToString.simps)
  note all = saveEntries_replaces_collection
         [of True sampleEnv "[JNum 7, sampleEntry]" sampleStore "JArr [JNum 7, sampleEntry]"]
  have ok: "fst (fst (DataService_saveEntries True sampleEnv (JArr [JNum 7, sampleEntry])
              sampleStore))"
    using all [THEN conjunct1] w f by simp
  have reread: "fst (fst (DataService_getEntries True
        (snd (DataService_saveEntries True sampleEnv (JArr [JNum 7, sampleEntry]) sampleStore))))
      = JArr [JNum 7, sampleEntry]"
    using all [THEN conjunct2, THEN mp, OF ok] by simp
  from w f ok reread show ?thesis by (intro conjI)
qed

lemma import_object_entriesFile:
  "entriesFile (snd (post_api_import e (JObj kvs) s)) =
     (case map_of kvs ''entries'' of
        None \<Rightarrow> entriesFile s
      | Some v \<Rightarrow>
          if truthy v
          then (case disk e ENTRIES_FILE of
                  Written \<Rightarrow> Some v | Refused \<Rightarrow> entriesFile s | Damaged \<Rightarrow> None)
          else entriesFile s)"
  by (simp add: post_api_import_def writeJSONFile_def Let_def
        split: option.splits outcome.splits)

lemma import_object_settingsFile:
  "settingsFile (snd (post_api_import e (JObj kvs) s)) =
     (case map_of kvs ''settings'' of
        None \<Rightarrow> settingsFile s
      | Some v \<Rightarrow>
          if truthy v
          then (case disk e SETTINGS_FILE of
                  Written \<Rightarrow> Some v | Refused \<Rightarrow> settingsFile s | Damaged \<Rightarrow> None)
          else settingsFile s)"
  by (simp add: post_api_import_def writeJSONFile_def Let_def
        split: option.splits outcome.splits)

text \<open>
  Claim C7. Round trip: importing the envelope that the export route has just produced
  leaves what \<open>GET /api/entries\<close> and \<open>GET /api/settings\<close> answer unchanged, for
  every store, whatever the clocks read and however long the text of the envelope is,
  provided that no write of the import fails after it has truncated its file; the
  envelope's \<open>exportDate\<close> plays no part.
\<close>

theorem export_import_roundtrip:
  assumes "disk e' ENTRIES_FILE \<noteq> Damaged" and "disk e' SETTINGS_FILE \<noteq> Damaged"
  shows "fst (get_api_entries
            (snd (express_json \<lparr>bytes = n, parsed = Some (body (fst (get_api_export e s)))\<rparr>
                    (post_api_import e') s)))
           = fst (get_api_entries s)
       \<and> fst (get_api_settings
            (snd (express_json \<lparr>bytes = n, parsed = Some (body (fst (get_api_export e s)))\<rparr>
                    (post_api_import e') s)))
           = fst (get_api_settings s)"
proof -
  let ?env = "body (fst (get_api_export e s))"
  let ?after = "snd (express_json \<lparr>bytes = n, parsed = Some ?env\<rparr> (post_api_import e') s)"
  have env: "?env = exportData e s"
    by (simp add: get_api_export_def res_json_def)
  have kept: "readJSONFile (snd (post_api_import e' v s)) ENTRIES_FILE (JArr [])
                 = readJSONFile s ENTRIES_FILE (JArr [])
              \<and> readJSONFile (snd (post_api_import e' v s)) SETTINGS_FILE serverDefaultSettings
                 = readJSONFile s SETTINGS_FILE serverDefaultSettings"
    if "v = JObj [] \<or> v = exportData e s" for v
    using that assms
    unfolding exportData_def readJSONFile_def fileAt.simps
    by (auto simp: import_object_entriesFile import_object_settingsFile serverDefaultSettings_def
          split: option.splits outcome.splits if_splits)
  have "?after = s \<or> ?after = snd (post_api_import e' (JObj []) s)
          \<or> ?after = snd (post_api_import e' (exportData e s) s)"
    by (simp add: express_json_def env exportData_def)
  then have "readJSONFile ?after ENTRIES_FILE (JArr []) = readJSONFile s ENTRIES_FILE (JArr [])
           \<and> readJSONFile ?after SETTINGS_FILE serverDefaultSettings
               = readJSONFile s SETTINGS_FILE serverDefaultSettings"
    using kept [of "JObj []"] kept [of "exportData e s"] by auto
  then show ?thesis
    by (simp add: get_api_entries_def get_api_settings_def)
qed

theorem export_import_roundtrip_witness:
  "disk sampleEnv ENTRIES_FILE \<noteq> Damaged
   \<and> disk sampleEnv SETTINGS_FILE \<noteq> Damaged
   \<and> fst (get_api_entries
        (snd (express_json
                \<lparr>bytes = 300, parsed = Some (body (fst (get_api_export sampleEnv sampleStore)))\<rparr>
                (post_api_import sampleEnv) sampleStore)))
       = fst (get_api_entries sampleStore)
   \<and> fst (get_api_settings
        (snd (express_json
                \<lparr>bytes = 300, parsed = Some (body (fst (get_api_export sampleEnv sampleStore)))\<rparr>
                (post_api_import sampleEnv) sampleStore)))
       = fst (get_api_settings sampleStore)
   \<and> entriesFile
        (snd (express_json
                \<lparr>bytes = 300, parsed = Some (body (fst (get_api_export sampleEnv sampleStore)))\<rparr>
                (post_api_import sampleEnv) sampleStore))
       = Some (JArr [sampleEntry])
   \<and> settingsFile
        (snd (express_json
                \<lparr>bytes = 300, parsed = Some (body (fst (get_api_export sampleEnv sampleStore)))\<rparr>
                (post_api_import sampleEnv) sampleStore))
       = Some serverDefaultSettings"
proof -
  let ?p = "\<lparr>bytes = 300, parsed = Some (body (fst (get_api_export sampleEnv sampleStore)))\<rparr>"
  have d1: "disk sampleEnv ENTRIES_FILE \<noteq> Damaged"
    by (simp add: sampleEnv_def)
  have d2: "disk sampleEnv SETTINGS_FILE \<noteq> Damaged"
    by (simp add: sampleEnv_def)
  note all = export_import_roundtrip [OF d1 d2, of 300 sampleEnv sampleStore]
  have c1: "fst (get_api_entries (snd (express_json ?p (post_api_import sampleEnv) sampleStore)))
              = fst (get_api_entries sampleStore)"
    using all by (rule conjunct1)
  have c2: "fst (get_api_settings (snd (express_json ?p (post_api_import sampleEnv) sampleStore)))
              = fst (get_api_settings sampleStore)"
    using all by (rule conjunct2)
  have route: "express_json ?p (post_api_import sampleEnv) sampleStore
                 = post_api_import sampleEnv (exportData sampleEnv sampleStore) sampleStore"
    by (simp add: express_json_def get_api_export_def res_json_def exportData_def)
  have c3: "entriesFile (snd (express_json ?p (post_api_import sampleEnv) sampleStore))
              = Some (JArr [sampleEntry])"
    unfolding route exportData_def import_object_entriesFile
    by (simp add: readJSONFile_def sampleStore_def sampleEnv_def)
  have c4: "settingsFile (snd (express_json ?p (post_api_import sampleEnv) sampleStore))
              = Some serverDefaultSettings"
    unfolding route exportData_def import_object_settingsFile
    by (simp add: readJSONFile_def sampleStore_def sampleEnv_def serverDefaultSettings_def)
  from d1 d2 c1 c2 c3 c4 show ?thesis by (intro conjI)
qed

subsection \<open>Updating an id that is not stored\<close>


lemma getProp_not_null: "x \<noteq> JNull \<Longrightarrow> \<exists>v. getProp x k = Normal v"
  by (cases x) auto







lemma updateEntry_result:
  "DataService_updateEntry online e entryId updates s =
     (if online
      then (if fits updates \<and> isObjectOrArray updates
            then (case entriesUrl entryId of
                    Param p \<Rightarrow> ((ok (fst (put_api_entries_id e p updates s)), []),
                                snd (put_api_entries_id e p updates s))
                  | NoRoute \<Rightarrow> ((False, []), s)
                  | BadParam \<Rightarrow> ((False, []), s))
            else ((False, []), s))
      else ((False, [ConsoleError ''Error updating entry:'']), s))"
  by (simp add: DataService_updateEntry_def fetch_def express_json_sent entries_id_def
        not_ok_refusals split: prod.splits target.splits)




subsection \<open>Deleting\<close>


lemma filterArr_default: "filterArr p (JArr []) = Normal (JArr [])"
  by simp








subsection \<open>Updating a stored entry\<close>

lemma idIs_True_object:
  "idIs entryId x = Normal True \<Longrightarrow> \<exists>kvs. x = JObj kvs \<and> map_of kvs ''id'' = Some (JStr entryId)"
  by (cases x) (auto simp: idIs_def split: option.splits if_splits)

lemma idIs_not_null: "x \<noteq> JNull \<Longrightarrow> \<exists>b. idIs entryId x = Normal b"
  using getProp_not_null [of x "''id''"] by (auto simp: idIs_def)

lemma getProp_mergeOver_object_other:
  "k \<notin> fst ` set (ownProps updates) \<Longrightarrow>
   getProp (mergeOver (JObj kvs) updates) k = getProp (JObj kvs) k"
  by (simp add: mergeOver_def map_of_spread_notin)

lemma getProp_mergeOver_given:
  "distinct (map fst (ownProps updates)) \<Longrightarrow> (k, v) \<in> set (ownProps updates) \<Longrightarrow>
   getProp (mergeOver old updates) k = Normal (Json v)"
  by (simp add: mergeOver_def map_of_spread_in)

lemma put_ok_result:
  assumes "ok (fst (put_api_entries_id e entryId updates s))"
  shows "\<exists>es i. readJSONFile s ENTRIES_FILE (JArr []) = JArr es \<and> i < length es
           \<and> idIs entryId (es ! i) = Normal True
           \<and> (\<forall>m<i. idIs entryId (es ! m) = Normal False)
           \<and> snd (put_api_entries_id e entryId updates s)
               = s\<lparr>entriesFile := Some (JArr (es[i := mergeOver (es ! i) updates]))\<rparr>"
proof (cases "readJSONFile s ENTRIES_FILE (JArr [])")
  case (JArr es)
  show ?thesis
  proof (cases "findIndexFrom (idIs entryId) es 0")
    case Throw
    with assms JArr show ?thesis
      by (simp add: put_api_entries_id_def res_status_json_def ok_def)
  next
    case (Normal j)
    from assms JArr Normal have j: "j \<noteq> - 1"
      by (auto simp: put_api_entries_id_def res_status_json_def ok_def)
    from findIndexFrom_found [OF Normal _ j]
    have found: "0 \<le> j" "nat j < length es" "idIs entryId (es ! nat j) = Normal True"
      "\<forall>m < nat j. idIs entryId (es ! m) = Normal False"
      by auto
    from assms JArr Normal j have w: "disk e ENTRIES_FILE = Written"
      by (auto simp: put_api_entries_id_def writeJSONFile_def res_status_json_def ok_def Let_def
          split: if_splits outcome.splits)
    have "snd (put_api_entries_id e entryId updates s)
            = s\<lparr>entriesFile := Some (JArr (es[nat j := mergeOver (es ! nat j) updates]))\<rparr>"
      using JArr Normal j w
      by (simp add: put_api_entries_id_def writeJSONFile_def Let_def)
    with JArr found show ?thesis by blast
  qed
qed (use assms in \<open>simp_all add: put_api_entries_id_def res_status_json_def ok_def\<close>)

lemma mergeIfId_not_null:
  "x \<noteq> JNull \<Longrightarrow>
   mergeIfId entryId updates x
     = Normal (if idIs entryId x = Normal True then mergeOver x updates else x)"
  using idIs_not_null [of x entryId] by (auto simp: mergeIfId_def)

lemma mapArr_mergeIfId:
  assumes "JNull \<notin> set ms"
  shows "mapArr (mergeIfId entryId updates) (JArr ms)
           = Normal (JArr (map (\<lambda>m. if idIs entryId m = Normal True then mergeOver m updates else m) ms))"
proof -
  have "\<forall>x\<in>set ms. mergeIfId entryId updates x
          = Normal (if idIs entryId x = Normal True then mergeOver x updates else x)"
  proof
    fix x assume "x \<in> set ms"
    with assms have "x \<noteq> JNull" by auto
    then show "mergeIfId entryId updates x
          = Normal (if idIs entryId x = Normal True then mergeOver x updates else x)"
      by (rule mergeIfId_not_null)
  qed
  then have "mapList (mergeIfId entryId updates) ms
          = Normal (map (\<lambda>m. if idIs entryId m = Normal True then mergeOver m updates else m) ms)"
    by (rule mapList_total)
  then show ?thesis by simp
qed

lemma getProp_merged_or_same:
  assumes "k \<notin> fst ` set (ownProps updates)"
  shows "getProp (if idIs entryId x = Normal True then mergeOver x updates else x) k = getProp x k"
proof (cases "idIs entryId x = Normal True")
  case True
  then obtain kvs where "x = JObj kvs" using idIs_True_object by blast
  with True assms show ?thesis by (simp add: getProp_mergeOver_object_other)
qed simp

lemma updateEntry_success:
  assumes "fst (fst (DataService_updateEntry online e entryId updates s))"
    and "entriesUrl entryId = Param p"
  shows "ok (fst (put_api_entries_id e p updates s))"
    and "DataService_updateEntry online e entryId updates s
           = ((True, []), snd (put_api_entries_id e p updates s))"
  using assms by (auto simp: updateEntry_result split: if_splits)

text \<open>
  Claim C1, as the code has it. \<open>updateEntry\<close> pastes the id into the request path as it
  is; the server looks up the id that the path carries for it, which is the id itself
  when it is made of letters, digits and \<open>-\<close>, \<open>_\<close> (as every id the server assigns is).
  A successful \<open>updateEntry\<close> replaces the first stored record with the id that reached
  the server by the partial spread over it, and in the client's mirror every record with
  the id that the caller gave likewise; the other records stay as they are. A key that the
  partial does not carry keeps its value in every record, so \<open>id\<close> and \<open>date\<close> are
  unchanged when the partial carries neither; a key that the partial carries takes the
  partial's value, \<open>id\<close> and \<open>date\<close> included.
\<close>

theorem updateEntry_merges_partial:
  assumes stored: "entriesFile s = Some (JArr es)"
      and mirrored: "entries st = JArr ms"
      and nonull: "JNull \<notin> set ms"
      and success: "fst (fst (DataService_updateEntry online e entryId updates s))"
      and carried: "entriesUrl entryId = Param p"
  shows "(\<exists>i<length es.
            idIs p (es ! i) = Normal True
          \<and> (\<forall>j<i. idIs p (es ! j) = Normal False)
          \<and> snd (updateEntry online e entryId updates (s, st))
              = s\<lparr>entriesFile := Some (JArr (es[i := mergeOver (es ! i) updates]))\<rparr>)
       \<and> fst (fst (updateEntry online e entryId updates (s, st)))
           = Normal (st\<lparr>entries :=
                          JArr (map (\<lambda>m. if idIs entryId m = Normal True
                                         then mergeOver m updates else m) ms),
                        isLoading := False\<rparr>)
       \<and> (\<forall>q old k. idIs q old = Normal True \<and> k \<notin> fst ` set (ownProps updates) \<longrightarrow>
             getProp (mergeOver old updates) k = getProp old k)
       \<and> (\<forall>old k v. distinct (map fst (ownProps updates)) \<and> (k, v) \<in> set (ownProps updates) \<longrightarrow>
             getProp (mergeOver old updates) k = Normal (Json v))
       \<and> (plainId entryId \<longrightarrow> p = entryId)"
proof -
  let ?f = "\<lambda>m. if idIs entryId m = Normal True then mergeOver m updates else m"
  have read: "readJSONFile s ENTRIES_FILE (JArr []) = JArr es"
    by (simp add: readJSONFile_def stored)
  from put_ok_result [OF updateEntry_success(1) [OF success carried]] read
  obtain i where i: "i < length es" "idIs p (es ! i) = Normal True"
      "\<forall>j<i. idIs p (es ! j) = Normal False"
    and put: "snd (put_api_entries_id e p updates s)
                = s\<lparr>entriesFile := Some (JArr (es[i := mergeOver (es ! i) updates]))\<rparr>"
    by auto
  let ?es' = "es[i := mergeOver (es ! i) updates]"
  have ds: "DataService_updateEntry online e entryId updates s
              = ((True, []), s\<lparr>entriesFile := Some (JArr ?es')\<rparr>)"
    using updateEntry_success(2) [OF success carried] put by simp
  have run: "updateEntry online e entryId updates (s, st)
               = ((Normal (st\<lparr>entries := JArr (map ?f ms), isLoading := False\<rparr>), []),
                  s\<lparr>entriesFile := Some (JArr ?es')\<rparr>)"
    by (simp add: updateEntry_def ds mirrored mapArr_mergeIfId [OF nonull] del: mapArr.simps)
  have store: "\<exists>i<length es.
            idIs p (es ! i) = Normal True
          \<and> (\<forall>j<i. idIs p (es ! j) = Normal False)
          \<and> snd (updateEntry online e entryId updates (s, st))
              = s\<lparr>entriesFile := Some (JArr (es[i := mergeOver (es ! i) updates]))\<rparr>"
    using i run by auto
  have mirror: "fst (fst (updateEntry online e entryId updates (s, st)))
           = Normal (st\<lparr>entries := JArr (map ?f ms), isLoading := False\<rparr>)"
    using run by simp
  have frame: "\<forall>q old k. idIs q old = Normal True \<and> k \<notin> fst ` set (ownProps updates) \<longrightarrow>
             getProp (mergeOver old updates) k = getProp old k"
  proof (intro allI impI)
    fix q old k
    assume h: "idIs q old = Normal True \<and> k \<notin> fst ` set (ownProps updates)"
    then have "k \<notin> fst ` set (ownProps updates)" by simp
    from getProp_merged_or_same [OF this, of q old] h
    show "getProp (mergeOver old updates) k = getProp old k" by simp
  qed
  have given: "\<forall>old k v. distinct (map fst (ownProps updates)) \<and> (k, v) \<in> set (ownProps updates) \<longrightarrow>
             getProp (mergeOver old updates) k = Normal (Json v)"
    using getProp_mergeOver_given by blast
  have plain: "plainId entryId \<longrightarrow> p = entryId"
    using carried plain_id_travels [of entryId] by auto
  from store mirror frame given plain show ?thesis by (intro conjI)
qed

theorem updateEntry_merges_partial_witness:
  "entriesFile sampleStore = Some (JArr [sampleEntry])
   \<and> entries sampleState = JArr [sampleEntry]
   \<and> JNull \<notin> set [sampleEntry]
   \<and> fst (fst (DataService_updateEntry True sampleEnv ''1705123456789''
                 (JObj [(''content'', JStr ''edited'')]) sampleStore))
   \<and> entriesUrl ''1705123456789'' = Param ''1705123456789''
   \<and> snd (updateEntry True sampleEnv ''1705123456789'' (JObj [(''content'', JStr ''edited'')])
            (sampleStore, sampleState))
       = sampleStore\<lparr>entriesFile :=
           Some (JArr [mergeOver sampleEntry (JObj [(''content'', JStr ''edited'')])])\<rparr>
   \<and> getProp (mergeOver sampleEntry (JObj [(''content'', JStr ''edited'')])) ''id''
       = getProp sampleEntry ''id''
   \<and> getProp (mergeOver sampleEntry (JObj [(''content'', JStr ''edited'')])) ''date''
       = getProp sampleEntry ''date''
   \<and> getProp (mergeOver sampleEntry (JObj [(''content'', JStr ''edited'')])) ''content''
       = Normal (Json (JStr ''edited''))"
proof -
  let ?upd = "JObj [(''content'', JStr ''edited'')]"
  let ?id = "''1705123456789''"
  have h1: "entriesFile sampleStore = Some (JArr [sampleEntry])"
    by (simp add: sampleStore_def)
  have h2: "entries sampleState = JArr [sampleEntry]"
    by (simp add: sampleState_def)
  have h3: "JNull \<notin> set [sampleEntry]"
    by (simp add: sampleEntry_def)
  have h5: "entriesUrl ?id = Param ?id"
    by (rule plain_id_travels) (simp add: plainId_def plainChar_def)
  have small: "fits ?upd"
    by (simp add: fits_def quote_def)
  have h4: "fst (fst (DataService_updateEntry True sampleEnv ?id ?upd sampleStore))"
    by (simp add: updateEntry_result small h5 put_api_entries_id_def readJSONFile_def
          writeJSONFile_def idIs_def res_json_def ok_def Let_def sampleStore_def sampleEntry_def
          sampleEnv_def)
  note all = updateEntry_merges_partial [OF h1 h2 h3 h4 h5]
  from all have "\<exists>i<length [sampleEntry].
      snd (updateEntry True sampleEnv ?id ?upd (sampleStore, sampleState))
        = sampleStore\<lparr>entriesFile :=
            Some (JArr ([sampleEntry][i := mergeOver ([sampleEntry] ! i) ?upd]))\<rparr>"
    by (elim conjE exE) (rule exI, erule conjI, assumption)
  then have c1: "snd (updateEntry True sampleEnv ?id ?upd (sampleStore, sampleState))
        = sampleStore\<lparr>entriesFile := Some (JArr [mergeOver sampleEntry ?upd])\<rparr>"
    by simp
  have matches: "idIs ?id sampleEntry = Normal True"
    by (simp add: idIs_def sampleEntry_def)
  from all have frame: "\<forall>q old k. idIs q old = Normal True \<and> k \<notin> fst ` set (ownProps ?upd) \<longrightarrow>
             getProp (mergeOver old ?upd) k = getProp old k"
    by (elim conjE)
  from all have given: "\<forall>old k v. distinct (map fst (ownProps ?upd)) \<and> (k, v) \<in> set (ownProps ?upd) \<longrightarrow>
             getProp (mergeOver old ?upd) k = Normal (Json v)"
    by (elim conjE)
  have c2: "getProp (mergeOver sampleEntry ?upd) ''id'' = getProp sampleEntry ''id''"
    using frame [rule_format, of ?id sampleEntry "''id''"] matches by simp
  have c3: "getProp (mergeOver sampleEntry ?upd) ''date'' = getProp sampleEntry ''date''"
    using frame [rule_format, of ?id sampleEntry "''date''"] matches by simp
  have c4: "getProp (mergeOver sampleEntry ?upd) ''content'' = Normal (Json (JStr ''edited''))"
    using given [rule_format, of "''content''" "JStr ''edited''" sampleEntry] by simp
  from h1 h2 h3 h4 h5 c1 c2 c3 c4 show ?thesis by (intro conjI)
qed

text \<open>
  The claim as the specification words it fails: a partial that carries \<open>id\<close> and
  \<open>date\<close> overwrites both, in the stored record and in the mirrored one.
\<close>

theorem updateEntry_overwrites_id_and_date:
  "fst (fst (DataService_updateEntry True sampleEnv ''1705123456789''
               (JObj [(''id'', JStr ''2''), (''date'', JStr ''1999-12-31T00:00:00.000Z'')])
               sampleStore))
   \<and> updateEntry True sampleEnv ''1705123456789''
        (JObj [(''id'', JStr ''2''), (''date'', JStr ''1999-12-31T00:00:00.000Z'')])
        (sampleStore, sampleState)
       = ((Normal \<lparr>entries =
                     JArr [JObj [(''id'', JStr ''2''),
                                 (''date'', JStr ''1999-12-31T00:00:00.000Z''),
                                 (''content'', JStr ''fine weather''),
                                 (''mood'', JStr ''happy'')]],
                   settings = JObj defaultSettings, isLoading = False\<rparr>, []),
          \<lparr>entriesFile =
             Some (JArr [JObj [(''id'', JStr ''2''),
                               (''date'', JStr ''1999-12-31T00:00:00.000Z''),
                               (''content'', JStr ''fine weather''),
                               (''mood'', JStr ''happy'')]]),
           settingsFile = None\<rparr>)
   \<and> getProp sampleEntry ''id'' = Normal (Json (JStr ''1705123456789''))
   \<and> getProp sampleEntry ''date'' = Normal (Json (JStr ''2024-01-13T05:24:16.789Z''))"
proof -
  have url: "entriesUrl ''1705123456789'' = Param ''1705123456789''"
    by (rule plain_id_travels) (simp add: plainId_def plainChar_def)
  have small: "fits (JObj [(''id'', JStr ''2''), (''date'', JStr ''1999-12-31T00:00:00.000Z'')])"
    by (simp add: fits_def quote_def)
  show ?thesis
    by (simp add: updateEntry_def updateEntry_result url small put_api_entries_id_def
          readJSONFile_def writeJSONFile_def idIs_def mergeIfId_def mergeOver_def res_json_def
          ok_def Let_def sampleStore_def sampleState_def sampleEntry_def sampleEnv_def)
qed

subsection \<open>Adding an entry\<close>

lemma unshift_Normal: "unshift v x = Normal w \<Longrightarrow> \<exists>xs. v = JArr xs \<and> w = JArr (x # xs)"
  by (cases v) auto

lemma addEntry_result:
  "DataService_addEntry online e entry s =
     (if online \<and> fits entry \<and> isObjectOrArray entry
      then (case unshift (readJSONFile s ENTRIES_FILE (JArr [])) (newEntry e entry) of
              Throw \<Rightarrow> ((None, [ConsoleError ''Error adding entry:'']), s)
            | Normal v \<Rightarrow>
                (case disk e ENTRIES_FILE of
                   Written \<Rightarrow> ((Some (newEntry e entry), []), s\<lparr>entriesFile := Some v\<rparr>)
                 | Refused \<Rightarrow> ((None, [ConsoleError ''Error adding entry:'']), s)
                 | Damaged \<Rightarrow> ((None, [ConsoleError ''Error adding entry:'']),
                               s\<lparr>entriesFile := None\<rparr>)))
      else ((None, [ConsoleError ''Error adding entry:'']), s))"
  by (simp add: DataService_addEntry_def fetch_def express_json_sent post_api_entries_add_def
        writeJSONFile_def res_json_def res_status_json_def ok_def Let_def
        split: completion.splits outcome.splits)

lemma addEntry_created:
  assumes "fst (fst (DataService_addEntry online e entry s)) = Some created"
  shows "created = newEntry e entry"
    and "\<exists>es. readJSONFile s ENTRIES_FILE (JArr []) = JArr es
            \<and> snd (DataService_addEntry online e entry s)
                = s\<lparr>entriesFile := Some (JArr (created # es))\<rparr>"
  using assms
  by (auto simp: addEntry_result split: if_splits completion.splits outcome.splits
        dest: unshift_Normal)

lemma addEntry_succeeds:
  assumes "online" "fits entry" "isObjectOrArray entry" "disk e ENTRIES_FILE = Written"
    and "readJSONFile s ENTRIES_FILE (JArr []) = JArr es"
  shows "fst (fst (DataService_addEntry online e entry s)) = Some (newEntry e entry)"
  using assms by (simp add: addEntry_result)

lemma getProp_newEntry_default:
  assumes "k \<notin> fst ` set (ownProps entry)"
  shows "getProp (newEntry e entry) k =
           getProp (JObj [(''id'', JStr (toString (dateNow e))), (''date'', JStr (isoNow e)),
                          (''content'', JStr ''''), (''mood'', JStr ''neutral'')]) k"
  using assms by (simp add: newEntry_def map_of_spread_notin)

lemma getProp_newEntry_given:
  "distinct (map fst (ownProps entry)) \<Longrightarrow> (k, v) \<in> set (ownProps entry) \<Longrightarrow>
   getProp (newEntry e entry) k = Normal (Json v)"
  by (simp add: newEntry_def map_of_spread_in)

text \<open>
  Claim C2, as the code has it. \<open>addEntry\<close> creates the record
  \<open>{id: Date.now().toString(), date: new Date().toISOString(), content: '', mood: 'neutral',
  ...partial}\<close>: every key that the partial carries takes the partial's value, \<open>id\<close> and
  \<open>date\<close> and keys other than \<open>content\<close> and \<open>mood\<close> included; a key that the partial
  does not carry has the server's value, so without \<open>id\<close> and \<open>date\<close> in the partial the
  id is the clock's milliseconds in decimal and the date is the clock's timestamp. With
  the server reachable, the partial an object whose text is within the body parser's
  limit, the file an array and the write completed, the call succeeds; on success the created record is what the caller gets back, and it
  is what has been put in front of the stored collection.
\<close>

theorem addEntry_creates_spread_over_defaults:
  "(online \<and> fits entry \<and> isObjectOrArray entry \<and> disk e ENTRIES_FILE = Written
      \<and> readJSONFile s ENTRIES_FILE (JArr []) = JArr es \<longrightarrow>
      fst (fst (DataService_addEntry online e entry s)) = Some (newEntry e entry))
   \<and> (fst (fst (DataService_addEntry online e entry s)) = Some created \<longrightarrow>
        created = newEntry e entry
      \<and> (\<exists>es. readJSONFile s ENTRIES_FILE (JArr []) = JArr es
             \<and> snd (DataService_addEntry online e entry s)
                 = s\<lparr>entriesFile := Some (JArr (created # es))\<rparr>))
   \<and> (''id'' \<notin> fst ` set (ownProps entry) \<longrightarrow>
        getProp (newEntry e entry) ''id'' = Normal (Json (JStr (toString (dateNow e)))))
   \<and> (''date'' \<notin> fst ` set (ownProps entry) \<longrightarrow>
        getProp (newEntry e entry) ''date'' = Normal (Json (JStr (isoNow e))))
   \<and> (''content'' \<notin> fst ` set (ownProps entry) \<longrightarrow>
        getProp (newEntry e entry) ''content'' = Normal (Json (JStr '''')))
   \<and> (''mood'' \<notin> fst ` set (ownProps entry) \<longrightarrow>
        getProp (newEntry e entry) ''mood'' = Normal (Json (JStr ''neutral'')))
   \<and> (\<forall>k v. distinct (map fst (ownProps entry)) \<and> (k, v) \<in> set (ownProps entry) \<longrightarrow>
        getProp (newEntry e entry) k = Normal (Json v))"
proof (intro conjI impI allI)
  assume "online \<and> fits entry \<and> isObjectOrArray entry \<and> disk e ENTRIES_FILE = Written
      \<and> readJSONFile s ENTRIES_FILE (JArr []) = JArr es"
  then show "fst (fst (DataService_addEntry online e entry s)) = Some (newEntry e entry)"
    using addEntry_succeeds by blast
next
  assume "fst (fst (DataService_addEntry online e entry s)) = Some created"
  then show "created = newEntry e entry"
    by (rule addEntry_created(1))
next
  assume "fst (fst (DataService_addEntry online e entry s)) = Some created"
  then show "\<exists>es. readJSONFile s ENTRIES_FILE (JArr []) = JArr es
             \<and> snd (DataService_addEntry online e entry s)
                 = s\<lparr>entriesFile := Some (JArr (created # es))\<rparr>"
    by (rule addEntry_created(2))
next
  assume "''id'' \<notin> fst ` set (ownProps entry)"
  then show "getProp (newEntry e entry) ''id'' = Normal (Json (JStr (toString (dateNow e))))"
    by (simp add: getProp_newEntry_default)
next
  assume "''date'' \<notin> fst ` set (ownProps entry)"
  then show "getProp (newEntry e entry) ''date'' = Normal (Json (JStr (isoNow e)))"
    by (simp add: getProp_newEntry_default)
next
  assume "''content'' \<notin> fst ` set (ownProps entry)"
  then show "getProp (newEntry e entry) ''content'' = Normal (Json (JStr ''''))"
    by (simp add: getProp_newEntry_default)
next
  assume "''mood'' \<notin> fst ` set (ownProps entry)"
  then show "getProp (newEntry e entry) ''mood'' = Normal (Json (JStr ''neutral''))"
    by (simp add: getProp_newEntry_default)
next
  fix k v
  assume "distinct (map fst (ownProps entry)) \<and> (k, v) \<in> set (ownProps entry)"
  then show "getProp (newEntry e entry) k = Normal (Json v)"
    by (simp add: getProp_newEntry_given)
qed

theorem addEntry_creates_spread_over_defaults_witness:
  "fits (JObj [(''content'', JStr ''hello'')])
   \<and> isObjectOrArray (JObj [(''content'', JStr ''hello'')])
   \<and> disk sampleEnv ENTRIES_FILE = Written
   \<and> readJSONFile emptyStore ENTRIES_FILE (JArr []) = JArr []
   \<and> fst (fst (DataService_addEntry True sampleEnv (JObj [(''content'', JStr ''hello'')])
                 emptyStore))
       = Some (newEntry sampleEnv (JObj [(''content'', JStr ''hello'')]))
   \<and> ''id'' \<notin> fst ` set (ownProps (JObj [(''content'', JStr ''hello'')]))
   \<and> ''date'' \<notin> fst ` set (ownProps (JObj [(''content'', JStr ''hello'')]))
   \<and> ''mood'' \<notin> fst ` set (ownProps (JObj [(''content'', JStr ''hello'')]))
   \<and> distinct (map fst (ownProps (JObj [(''content'', JStr ''hello'')])))
   \<and> (''content'', JStr ''hello'') \<in> set (ownProps (JObj [(''content'', JStr ''hello'')]))
   \<and> getProp (newEntry sampleEnv (JObj [(''content'', JStr ''hello'')])) ''id''
       = Normal (Json (JStr ''1705123456789''))
   \<and> getProp (newEntry sampleEnv (JObj [(''content'', JStr ''hello'')])) ''date''
       = Normal (Json (JStr ''2024-01-13T05:24:16.789Z''))
   \<and> getProp (newEntry sampleEnv (JObj [(''content'', JStr ''hello'')])) ''mood''
       = Normal (Json (JStr ''neutral''))
   \<and> getProp (newEntry sampleEnv (JObj [(''content'', JStr ''hello'')])) ''content''
       = Normal (Json (JStr ''hello''))
   \<and> snd (DataService_addEntry True sampleEnv (JObj [(''content'', JStr ''hello'')]) emptyStore)
       = emptyStore\<lparr>entriesFile :=
           Some (JArr [newEntry sampleEnv (JObj [(''content'', JStr ''hello'')])])\<rparr>
   \<and> ''content'' \<notin> fst ` set (ownProps (JObj [(''mood'', JStr ''happy'')]))
   \<and> getProp (newEntry sampleEnv (JObj [(''mood'', JStr ''happy'')])) ''content''
       = Normal (Json (JStr ''''))"
proof -
  let ?p = "JObj [(''content'', JStr ''hello'')]"
  note all = addEntry_creates_spread_over_defaults
               [of True ?p sampleEnv emptyStore "[]" "newEntry sampleEnv ?p"]
  have pre: "fits ?p" "isObjectOrArray ?p" "disk sampleEnv ENTRIES_FILE = Written"
    "readJSONFile emptyStore ENTRIES_FILE (JArr []) = JArr []"
    by (simp_all add: sampleEnv_def emptyStore_def readJSONFile_def fits_def quote_def)
  have keys: "''id'' \<notin> fst ` set (ownProps ?p)" "''date'' \<notin> fst ` set (ownProps ?p)"
    "''mood'' \<notin> fst ` set (ownProps ?p)" "distinct (map fst (ownProps ?p))"
    "(''content'', JStr ''hello'') \<in> set (ownProps ?p)"
    by simp_all
  have clock: "toString (dateNow sampleEnv) = ''1705123456789''"
    "isoNow sampleEnv = ''2024-01-13T05:24:16.789Z''"
    by (simp_all add: sampleEnv_def toString_sample)
  have c1: "fst (fst (DataService_addEntry True sampleEnv ?p emptyStore))
              = Some (newEntry sampleEnv ?p)"
    using all [THEN conjunct1] pre by simp
  note rest = all [THEN conjunct2, THEN conjunct2]
  have c2: "getProp (newEntry sampleEnv ?p) ''id'' = Normal (Json (JStr ''1705123456789''))"
    using rest [THEN conjunct1, THEN mp, OF keys(1)] clock(1) by simp
  note rest = rest [THEN conjunct2]
  have c3: "getProp (newEntry sampleEnv ?p) ''date''
              = Normal (Json (JStr ''2024-01-13T05:24:16.789Z''))"
    using rest [THEN conjunct1, THEN mp, OF keys(2)] clock(2) by simp
  note rest = rest [THEN conjunct2, THEN conjunct2]
  have c4: "getProp (newEntry sampleEnv ?p) ''mood'' = Normal (Json (JStr ''neutral''))"
    using rest [THEN conjunct1, THEN mp, OF keys(3)] by simp
  have c5: "getProp (newEntry sampleEnv ?p) ''content'' = Normal (Json (JStr ''hello''))"
    using rest [THEN conjunct2, rule_format, of "''content''" "JStr ''hello''"] keys(4,5)
    by simp
  have "\<exists>es. readJSONFile emptyStore ENTRIES_FILE (JArr []) = JArr es
          \<and> snd (DataService_addEntry True sampleEnv ?p emptyStore)
              = emptyStore\<lparr>entriesFile := Some (JArr (newEntry sampleEnv ?p # es))\<rparr>"
    using all [THEN conjunct2, THEN conjunct1, THEN mp, OF c1] by (rule conjunct2)
  with pre(4)
  have c6: "snd (DataService_addEntry True sampleEnv ?p emptyStore)
              = emptyStore\<lparr>entriesFile := Some (JArr [newEntry sampleEnv ?p])\<rparr>"
    by auto
  let ?q = "JObj [(''mood'', JStr ''happy'')]"
  have nocontent: "''content'' \<notin> fst ` set (ownProps ?q)"
    by simp
  have c7: "getProp (newEntry sampleEnv ?q) ''content'' = Normal (Json (JStr ''''))"
    using addEntry_creates_spread_over_defaults
            [of True ?q sampleEnv emptyStore "[]" "newEntry sampleEnv ?q",
             THEN conjunct2, THEN conjunct2, THEN conjunct2, THEN conjunct2, THEN conjunct1,
             THEN mp, OF nocontent]
    by simp
  from pre c1 keys c2 c3 c4 c5 c6 nocontent c7 show ?thesis by (intro conjI)
qed

text \<open>
  The claim as the specification words it fails: a partial that carries \<open>id\<close> and
  \<open>date\<close> decides both, and a key that is neither \<open>content\<close> nor \<open>mood\<close> is stored
  with the rest.
\<close>

theorem addEntry_caller_sets_id_and_date:
  "DataService_addEntry True sampleEnv
     (JObj [(''id'', JStr ''mine''), (''date'', JStr ''1999-12-31T00:00:00.000Z''),
            (''pinned'', JBool True)])
     emptyStore
   = ((Some (JObj [(''id'', JStr ''mine''), (''date'', JStr ''1999-12-31T00:00:00.000Z''),
                   (''content'', JStr ''''), (''mood'', JStr ''neutral''),
                   (''pinned'', JBool True)]), []),
      \<lparr>entriesFile =
         Some (JArr [JObj [(''id'', JStr ''mine''),
                           (''date'', JStr ''1999-12-31T00:00:00.000Z''),
                           (''content'', JStr ''''), (''mood'', JStr ''neutral''),
                           (''pinned'', JBool True)]]),
       settingsFile = None\<rparr>)
   \<and> toString (dateNow sampleEnv) = ''1705123456789''
   \<and> isoNow sampleEnv = ''2024-01-13T05:24:16.789Z''"
proof -
  have small: "fits (JObj [(''id'', JStr ''mine''), (''date'', JStr ''1999-12-31T00:00:00.000Z''),
                           (''pinned'', JBool True)])"
    by (simp add: fits_def quote_def)
  show ?thesis
    by (simp add: addEntry_result small newEntry_def readJSONFile_def emptyStore_def
          sampleEnv_def toString_def natToString.simps digitChar_def)
qed

lemma filter_same_id_head:
  "length (filter (\<lambda>x. getProp x ''id'' = getProp c ''id'') (c # es)) = 1
     \<longleftrightarrow> (\<forall>x\<in>set es. getProp x ''id'' \<noteq> getProp c ''id'')"
  by (simp add: filter_empty_conv)

text \<open>
  Claim C3, as the code has it. After a successful \<open>addEntry\<close>, \<open>listEntries\<close> answers
  the created record followed by the records it answered before, in their order: one
  record more, the new one first. When the partial carries no \<open>id\<close>, the id of the created
  record is the clock's milliseconds in decimal, which is not empty; the id is unique in
  the collection exactly when no record stored before carries it, which nothing in the
  server checks. When the partial carries no \<open>date\<close>, the date is the timestamp that the
  server's clock gave during the call.
\<close>

theorem addEntry_prepends:
  assumes before: "body (fst (get_api_entries s)) = JArr es"
      and success: "fst (fst (DataService_addEntry online e entry s)) = Some created"
  shows "body (fst (get_api_entries (snd (DataService_addEntry online e entry s))))
           = JArr (created # es)
       \<and> length (created # es) = length es + 1
       \<and> (''id'' \<notin> fst ` set (ownProps entry) \<longrightarrow>
            getProp created ''id'' = Normal (Json (JStr (toString (dateNow e))))
          \<and> toString (dateNow e) \<noteq> '''')
       \<and> (length (filter (\<lambda>x. getProp x ''id'' = getProp created ''id'') (created # es)) = 1
            \<longleftrightarrow> (\<forall>x\<in>set es. getProp x ''id'' \<noteq> getProp created ''id''))
       \<and> (''date'' \<notin> fst ` set (ownProps entry) \<longrightarrow>
            getProp created ''date'' = Normal (Json (JStr (isoNow e))))"
proof -
  have read: "readJSONFile s ENTRIES_FILE (JArr []) = JArr es"
    using before by (simp add: get_api_entries_def res_json_def)
  have created: "created = newEntry e entry"
    using success by (rule addEntry_created(1))
  from addEntry_created(2) [OF success] read
  have after: "snd (DataService_addEntry online e entry s)
                 = s\<lparr>entriesFile := Some (JArr (created # es))\<rparr>"
    by auto
  have listed: "body (fst (get_api_entries (snd (DataService_addEntry online e entry s))))
           = JArr (created # es)"
    by (simp add: after get_api_entries_def res_json_def readJSONFile_def)
  have ident: "getProp created ''id'' = Normal (Json (JStr (toString (dateNow e))))
          \<and> toString (dateNow e) \<noteq> ''''"
    if "''id'' \<notin> fst ` set (ownProps entry)"
    using that by (simp add: created getProp_newEntry_default toString_nonempty)
  have dated: "getProp created ''date'' = Normal (Json (JStr (isoNow e)))"
    if "''date'' \<notin> fst ` set (ownProps entry)"
    using that by (simp add: created getProp_newEntry_default)
  show ?thesis
    using listed ident dated filter_same_id_head [of created es]
    by (intro conjI impI) simp_all
qed

theorem addEntry_prepends_witness:
  "body (fst (get_api_entries emptyStore)) = JArr []
   \<and> fst (fst (DataService_addEntry True sampleEnv
                 (JObj [(''content'', JStr ''hello''), (''mood'', JStr ''happy'')]) emptyStore))
       = Some (JObj [(''id'', JStr ''1705123456789''),
                     (''date'', JStr ''2024-01-13T05:24:16.789Z''),
                     (''content'', JStr ''hello''), (''mood'', JStr ''happy'')])
   \<and> body (fst (get_api_entries (snd (DataService_addEntry True sampleEnv
                 (JObj [(''content'', JStr ''hello''), (''mood'', JStr ''happy'')]) emptyStore))))
       = JArr [JObj [(''id'', JStr ''1705123456789''),
                     (''date'', JStr ''2024-01-13T05:24:16.789Z''),
                     (''content'', JStr ''hello''), (''mood'', JStr ''happy'')]]
   \<and> ''id'' \<notin> fst ` set (ownProps (JObj [(''content'', JStr ''hello''),
                                           (''mood'', JStr ''happy'')]))
   \<and> ''date'' \<notin> fst ` set (ownProps (JObj [(''content'', JStr ''hello''),
                                             (''mood'', JStr ''happy'')]))
   \<and> getProp (JObj [(''id'', JStr ''1705123456789''),
                     (''date'', JStr ''2024-01-13T05:24:16.789Z''),
                     (''content'', JStr ''hello''), (''mood'', JStr ''happy'')]) ''id''
       = Normal (Json (JStr (toString (dateNow sampleEnv))))
   \<and> toString (dateNow sampleEnv) \<noteq> ''''
   \<and> getProp (JObj [(''id'', JStr ''1705123456789''),
                     (''date'', JStr ''2024-01-13T05:24:16.789Z''),
                     (''content'', JStr ''hello''), (''mood'', JStr ''happy'')]) ''date''
       = Normal (Json (JStr (isoNow sampleEnv)))
   \<and> length (filter
         (\<lambda>x. getProp x ''id''
                = getProp (JObj [(''id'', JStr ''1705123456789''),
                                 (''date'', JStr ''2024-01-13T05:24:16.789Z''),
                                 (''content'', JStr ''hello''), (''mood'', JStr ''happy'')]) ''id'')
         [JObj [(''id'', JStr ''1705123456789''),
                (''date'', JStr ''2024-01-13T05:24:16.789Z''),
                (''content'', JStr ''hello''), (''mood'', JStr ''happy'')]]) = 1"
proof -
  let ?p = "JObj [(''content'', JStr ''hello''), (''mood'', JStr ''happy'')]"
  let ?c = "JObj [(''id'', JStr ''1705123456789''),
                  (''date'', JStr ''2024-01-13T05:24:16.789Z''),
                  (''content'', JStr ''hello''), (''mood'', JStr ''happy'')]"
  have before: "body (fst (get_api_entries emptyStore)) = JArr []"
    by (simp add: get_api_entries_def res_json_def readJSONFile_def emptyStore_def)
  have small: "fits ?p"
    by (simp add: fits_def quote_def)
  have success: "fst (fst (DataService_addEntry True sampleEnv ?p emptyStore)) = Some ?c"
    by (simp add: addEntry_result small newEntry_def readJSONFile_def emptyStore_def
          sampleEnv_def toString_def natToString.simps digitChar_def)
  have keys: "''id'' \<notin> fst ` set (ownProps ?p)" "''date'' \<notin> fst ` set (ownProps ?p)"
    by simp_all
  note all = addEntry_prepends [OF before success]
  have listed: "body (fst (get_api_entries (snd (DataService_addEntry True sampleEnv ?p
                  emptyStore)))) = JArr [?c]"
    using all by (rule conjunct1)
  note rest = all [THEN conjunct2, THEN conjunct2]
  note ident = rest [THEN conjunct1, THEN mp, OF keys(1)]
  have i1: "getProp ?c ''id'' = Normal (Json (JStr (toString (dateNow sampleEnv))))"
    using ident by (rule conjunct1)
  have i2: "toString (dateNow sampleEnv) \<noteq> ''''"
    using ident by (rule conjunct2)
  note rest = rest [THEN conjunct2]
  have once: "length (filter (\<lambda>x. getProp x ''id'' = getProp ?c ''id'') [?c]) = 1"
    using rest [THEN conjunct1] by simp
  have dated: "getProp ?c ''date'' = Normal (Json (JStr (isoNow sampleEnv)))"
    using rest [THEN conjunct2, THEN mp, OF keys(2)] .
  from before success listed keys i1 i2 dated once show ?thesis by (intro conjI)
qed

text \<open>
  The claim as the specification words it fails on uniqueness: two records added one after
  the other while the clock reads the same millisecond get the same id, and the collection
  holds that id twice.
\<close>

theorem addEntry_repeats_id:
  "fst (fst (DataService_addEntry True sampleEnv
               (JObj [(''content'', JStr ''hello''), (''mood'', JStr ''happy'')]) emptyStore))
     = Some (JObj [(''id'', JStr ''1705123456789''),
                   (''date'', JStr ''2024-01-13T05:24:16.789Z''),
                   (''content'', JStr ''hello''), (''mood'', JStr ''happy'')])
   \<and> fst (fst (DataService_addEntry True sampleEnv
                 (JObj [(''content'', JStr ''again''), (''mood'', JStr ''sad'')])
                 (snd (DataService_addEntry True sampleEnv
                         (JObj [(''content'', JStr ''hello''), (''mood'', JStr ''happy'')])
                         emptyStore))))
       = Some (JObj [(''id'', JStr ''1705123456789''),
                     (''date'', JStr ''2024-01-13T05:24:16.789Z''),
                     (''content'', JStr ''again''), (''mood'', JStr ''sad'')])
   \<and> body (fst (get_api_entries
         (snd (DataService_addEntry True sampleEnv
                 (JObj [(''content'', JStr ''again''), (''mood'', JStr ''sad'')])
                 (snd (DataService_addEntry True sampleEnv
                         (JObj [(''content'', JStr ''hello''), (''mood'', JStr ''happy'')])
                         emptyStore))))))
       = JArr [JObj [(''id'', JStr ''1705123456789''),
                     (''date'', JStr ''2024-01-13T05:24:16.789Z''),
                     (''content'', JStr ''again''), (''mood'', JStr ''sad'')],
               JObj [(''id'', JStr ''1705123456789''),
                     (''date'', JStr ''2024-01-13T05:24:16.789Z''),
                     (''content'', JStr ''hello''), (''mood'', JStr ''happy'')]]"
proof -
  let ?p1 = "JObj [(''content'', JStr ''hello''), (''mood'', JStr ''happy'')]"
  let ?p2 = "JObj [(''content'', JStr ''again''), (''mood'', JStr ''sad'')]"
  let ?c1 = "JObj [(''id'', JStr ''1705123456789''),
                   (''date'', JStr ''2024-01-13T05:24:16.789Z''),
                   (''content'', JStr ''hello''), (''mood'', JStr ''happy'')]"
  let ?c2 = "JObj [(''id'', JStr ''1705123456789''),
                   (''date'', JStr ''2024-01-13T05:24:16.789Z''),
                   (''content'', JStr ''again''), (''mood'', JStr ''sad'')]"
  have n1: "newEntry sampleEnv ?p1 = ?c1"
    by (simp add: newEntry_def sampleEnv_def toString_def natToString.simps digitChar_def)
  have n2: "newEntry sampleEnv ?p2 = ?c2"
    by (simp add: newEntry_def sampleEnv_def toString_def natToString.simps digitChar_def)
  have w: "disk sampleEnv ENTRIES_FILE = Written"
    by (simp add: sampleEnv_def)
  have f1: "fits ?p1"
    by (simp add: fits_def quote_def)
  have f2: "fits ?p2"
    by (simp add: fits_def quote_def)
  have a1: "DataService_addEntry True sampleEnv ?p1 emptyStore
              = ((Some ?c1, []), \<lparr>entriesFile = Some (JArr [?c1]), settingsFile = None\<rparr>)"
    by (simp add: addEntry_result f1 n1 w readJSONFile_def emptyStore_def)
  have a2: "DataService_addEntry True sampleEnv ?p2
              \<lparr>entriesFile = Some (JArr [?c1]), settingsFile = None\<rparr>
              = ((Some ?c2, []), \<lparr>entriesFile = Some (JArr [?c2, ?c1]), settingsFile = None\<rparr>)"
    by (simp add: addEntry_result f2 n2 w readJSONFile_def)
  show ?thesis
    by (simp add: a1 a2 get_api_entries_def res_json_def readJSONFile_def)
qed

subsection \<open>Settings\<close>

lemma getEntries_result:
  "DataService_getEntries online s =
     (if online then ((readJSONFile s ENTRIES_FILE (JArr []), []), s)
      else ((JArr [], [ConsoleError ''Error fetching entries:'']), s))"
  by (simp add: DataService_getEntries_def fetch_def get_api_entries_def res_json_def ok_def)

lemma getSettings_result:
  "DataService_getSettings online s =
     (if online then ((readJSONFile s SETTINGS_FILE serverDefaultSettings, []), s)
      else ((JObj defaultSettings, [ConsoleError ''Error fetching settings:'']), s))"
  by (simp add: DataService_getSettings_def fetch_def get_api_settings_def res_json_def ok_def)

lemma loadData_result:
  "loadData online1 online2 online3 e3 (s, st) =
     (case getProp (fst (fst (DataService_getSettings online2 s))) ''customTexts'' of
        Throw \<Rightarrow>
          ((st\<lparr>entries := fst (fst (DataService_getEntries online1 s)), isLoading := False\<rparr>,
            snd (fst (DataService_getEntries online1 s))
              @ snd (fst (DataService_getSettings online2 s))
              @ [ConsoleError ''Error loading data:'']), s)
      | Normal customTexts \<Rightarrow>
          ((st\<lparr>entries := fst (fst (DataService_getEntries online1 s)),
               settings := mergeSettings (fst (fst (DataService_getSettings online2 s))) customTexts,
               isLoading := False\<rparr>,
            snd (fst (DataService_getEntries online1 s))
              @ snd (fst (DataService_getSettings online2 s))
              @ fst (settingsEffect online3 e3
                       (mergeSettings (fst (fst (DataService_getSettings online2 s))) customTexts)
                       s)),
           snd (settingsEffect online3 e3
                  (mergeSettings (fst (fst (DataService_getSettings online2 s))) customTexts) s)))"
  by (simp add: loadData_def getEntries_result getSettings_result
        split: completion.splits prod.splits)

lemma getProp_mergeSettings_customTexts:
  "getProp (mergeSettings sd ct) ''customTexts''
     = Normal (Json (JObj (spread defaultCustomTexts (ownPropsVal ct))))"
  by (simp add: mergeSettings_def update_conv')

lemma getProp_mergeSettings_default:
  "k \<noteq> ''customTexts'' \<Longrightarrow> k \<notin> fst ` set (ownProps sd) \<Longrightarrow>
   getProp (mergeSettings sd ct) k = getProp (JObj defaultSettings) k"
  by (simp add: mergeSettings_def update_conv' map_of_spread_notin)

lemma getProp_mergeSettings_given:
  "k \<noteq> ''customTexts'' \<Longrightarrow> distinct (map fst (ownProps sd)) \<Longrightarrow> (k, v) \<in> set (ownProps sd) \<Longrightarrow>
   getProp (mergeSettings sd ct) k = Normal (Json v)"
  by (simp add: mergeSettings_def update_conv' map_of_spread_in)

lemma mergeSettings_serverDefault:
  "mergeSettings serverDefaultSettings Undefined = JObj defaultSettings"
  by (simp add: mergeSettings_def serverDefaultSettings_def defaultSettings_def)

text \<open>
  Claim C6, as the code has it. The store's \<open>getSettings\<close> answers the settings file as
  it is, or a default of three fields (no \<open>customTexts\<close>) when there is none; it merges
  nothing, and \<open>DataService.getSettings\<close> passes the answer on. The merge over the full
  defaults is the client's, in \<open>loadData\<close>: a key that the answer lacks has the default's
  value, a key that it carries has its value, and \<open>customTexts\<close> is the answer's own
  \<open>customTexts\<close> spread over the five default texts, field by field.
\<close>

theorem loadData_merges_settings_over_defaults:
  assumes answered: "body (fst (get_api_settings s)) = sd"
      and inner: "getProp sd ''customTexts'' = Normal ct"
  shows "sd = (case settingsFile s of None \<Rightarrow> serverDefaultSettings | Some v \<Rightarrow> v)
       \<and> fst (fst (DataService_getSettings True s)) = sd
       \<and> settings (fst (fst (loadData online1 True online3 e3 (s, st)))) = mergeSettings sd ct
       \<and> (\<forall>k. k \<noteq> ''customTexts'' \<and> k \<notin> fst ` set (ownProps sd) \<longrightarrow>
             getProp (mergeSettings sd ct) k = getProp (JObj defaultSettings) k)
       \<and> (\<forall>k v. k \<noteq> ''customTexts'' \<and> distinct (map fst (ownProps sd))
                \<and> (k, v) \<in> set (ownProps sd) \<longrightarrow>
             getProp (mergeSettings sd ct) k = Normal (Json v))
       \<and> getProp (mergeSettings sd ct) ''customTexts''
           = Normal (Json (JObj (spread defaultCustomTexts (ownPropsVal ct))))
       \<and> (\<forall>k. k \<notin> fst ` set (ownPropsVal ct) \<longrightarrow>
             map_of (spread defaultCustomTexts (ownPropsVal ct)) k = map_of defaultCustomTexts k)
       \<and> (\<forall>k v. distinct (map fst (ownPropsVal ct)) \<and> (k, v) \<in> set (ownPropsVal ct) \<longrightarrow>
             map_of (spread defaultCustomTexts (ownPropsVal ct)) k = Some v)
       \<and> (settingsFile s = None \<longrightarrow>
             settings (fst (fst (loadData online1 True online3 e3 (s, st)))) = JObj defaultSettings)"
proof -
  have sd: "sd = readJSONFile s SETTINGS_FILE serverDefaultSettings"
    using answered by (simp add: get_api_settings_def res_json_def)
  have verbatim: "sd = (case settingsFile s of None \<Rightarrow> serverDefaultSettings | Some v \<Rightarrow> v)"
    by (simp add: sd readJSONFile_def)
  have passed: "fst (fst (DataService_getSettings True s)) = sd"
    by (simp add: getSettings_result sd)
  have loaded: "settings (fst (fst (loadData online1 True online3 e3 (s, st)))) = mergeSettings sd ct"
    by (simp add: loadData_result passed inner)
  have nofile: "settingsFile s = None \<longrightarrow>
             settings (fst (fst (loadData online1 True online3 e3 (s, st)))) = JObj defaultSettings"
  proof
    assume none: "settingsFile s = None"
    with verbatim have eq: "sd = serverDefaultSettings" by simp
    with inner have "ct = Undefined"
      by (simp add: serverDefaultSettings_def)
    with eq loaded show "settings (fst (fst (loadData online1 True online3 e3 (s, st)))) = JObj defaultSettings"
      by (simp add: mergeSettings_serverDefault)
  qed
  have d: "\<forall>k. k \<noteq> ''customTexts'' \<and> k \<notin> fst ` set (ownProps sd) \<longrightarrow>
             getProp (mergeSettings sd ct) k = getProp (JObj defaultSettings) k"
    by (simp add: getProp_mergeSettings_default)
  have g: "\<forall>k v. k \<noteq> ''customTexts'' \<and> distinct (map fst (ownProps sd))
                \<and> (k, v) \<in> set (ownProps sd) \<longrightarrow>
             getProp (mergeSettings sd ct) k = Normal (Json v)"
    by (simp add: getProp_mergeSettings_given)
  have c: "getProp (mergeSettings sd ct) ''customTexts''
           = Normal (Json (JObj (spread defaultCustomTexts (ownPropsVal ct))))"
    by (rule getProp_mergeSettings_customTexts)
  have cd: "\<forall>k. k \<notin> fst ` set (ownPropsVal ct) \<longrightarrow>
             map_of (spread defaultCustomTexts (ownPropsVal ct)) k = map_of defaultCustomTexts k"
    by (simp add: map_of_spread_notin)
  have cg: "\<forall>k v. distinct (map fst (ownPropsVal ct)) \<and> (k, v) \<in> set (ownPropsVal ct) \<longrightarrow>
             map_of (spread defaultCustomTexts (ownPropsVal ct)) k = Some v"
    by (simp add: map_of_spread_in)
  from verbatim passed loaded d g c cd cg nofile show ?thesis
    by (intro conjI)
qed

lemma saveSettings_result:
  "DataService_saveSettings online e v s =
     (if online
      then (if fits v \<and> isObjectOrArray v
            then (case disk e SETTINGS_FILE of
                    Written \<Rightarrow> ((True, []), s\<lparr>settingsFile := Some v\<rparr>)
                  | Refused \<Rightarrow> ((False, []), s)
                  | Damaged \<Rightarrow> ((False, []), s\<lparr>settingsFile := None\<rparr>))
            else ((False, []), s))
      else ((False, [ConsoleError ''Error saving settings:'']), s))"
  by (simp add: DataService_saveSettings_def fetch_def express_json_sent post_api_settings_def
        writeJSONFile_def not_ok_refusals split: outcome.splits)

lemma fits_theme_dark: "fits (JObj [(''theme'', JStr ''dark'')])"
  by (simp add: fits_def quote_def)

theorem loadData_merges_settings_over_defaults_witness:
  "body (fst (get_api_settings
       (snd (DataService_saveSettings True sampleEnv (JObj [(''theme'', JStr ''dark'')])
               emptyStore))))
     = JObj [(''theme'', JStr ''dark'')]
   \<and> getProp (JObj [(''theme'', JStr ''dark'')]) ''customTexts'' = Normal Undefined
   \<and> settings (fst (fst (loadData True True True sampleEnv
         (snd (DataService_saveSettings True sampleEnv (JObj [(''theme'', JStr ''dark'')])
                 emptyStore), sampleState))))
       = mergeSettings (JObj [(''theme'', JStr ''dark'')]) Undefined
   \<and> getProp (mergeSettings (JObj [(''theme'', JStr ''dark'')]) Undefined) ''theme''
       = Normal (Json (JStr ''dark''))
   \<and> getProp (mergeSettings (JObj [(''theme'', JStr ''dark'')]) Undefined) ''autoSave''
       = Normal (Json (JBool True))
   \<and> getProp (mergeSettings (JObj [(''theme'', JStr ''dark'')]) Undefined) ''customTexts''
       = Normal (Json (JObj defaultCustomTexts))
   \<and> map_of defaultCustomTexts ''appTitle'' = Some (JStr appTitle_default)
   \<and> settingsFile emptyStore = None
   \<and> settings (fst (fst (loadData True True True sampleEnv (emptyStore, sampleState)))) = JObj defaultSettings"
proof -
  let ?sd = "JObj [(''theme'', JStr ''dark'')]"
  let ?s1 = "snd (DataService_saveSettings True sampleEnv ?sd emptyStore)"
  have answered: "body (fst (get_api_settings ?s1)) = ?sd"
    by (simp add: saveSettings_result fits_theme_dark get_api_settings_def res_json_def
          readJSONFile_def sampleEnv_def emptyStore_def)
  have inner: "getProp ?sd ''customTexts'' = Normal Undefined"
    by simp
  note all = loadData_merges_settings_over_defaults [OF answered inner, of True True sampleEnv sampleState]
  note rest = all [THEN conjunct2, THEN conjunct2]
  have loaded: "settings (fst (fst (loadData True True True sampleEnv (?s1, sampleState))))
                  = mergeSettings ?sd Undefined"
    using rest by (rule conjunct1)
  note rest = rest [THEN conjunct2]
  have auto_save: "getProp (mergeSettings ?sd Undefined) ''autoSave'' = Normal (Json (JBool True))"
    using rest [THEN conjunct1, rule_format, of "''autoSave''"]
    by (simp add: defaultSettings_def)
  note rest = rest [THEN conjunct2]
  have theme: "getProp (mergeSettings ?sd Undefined) ''theme'' = Normal (Json (JStr ''dark''))"
    using rest [THEN conjunct1, rule_format, of "''theme''" "JStr ''dark''"]
    by simp
  note rest = rest [THEN conjunct2]
  have texts: "getProp (mergeSettings ?sd Undefined) ''customTexts''
                 = Normal (Json (JObj defaultCustomTexts))"
    using rest [THEN conjunct1] by simp
  have title: "map_of defaultCustomTexts ''appTitle'' = Some (JStr appTitle_default)"
    by (simp add: defaultCustomTexts_def)
  have answered0: "body (fst (get_api_settings emptyStore)) = serverDefaultSettings"
    by (simp add: get_api_settings_def res_json_def readJSONFile_def emptyStore_def)
  have inner0: "getProp serverDefaultSettings ''customTexts'' = Normal Undefined"
    by (simp add: serverDefaultSettings_def)
  have none: "settingsFile emptyStore = None"
    by (simp add: emptyStore_def)
  have fresh: "settings (fst (fst (loadData True True True sampleEnv (emptyStore, sampleState))))
                 = JObj defaultSettings"
    using loadData_merges_settings_over_defaults
            [OF answered0 inner0, of True True sampleEnv sampleState,
             THEN conjunct2, THEN conjunct2, THEN conjunct2, THEN conjunct2,
             THEN conjunct2, THEN conjunct2, THEN conjunct2, THEN conjunct2,
             THEN mp, OF none] .
  from answered inner loaded theme auto_save texts title none fresh show ?thesis
    by (intro conjI)
qed

text \<open>
  The claim as the specification words it fails: after \<open>saveSettings({theme: "dark"})\<close>
  alone, \<open>getSettings\<close> answers that one field and no \<open>customTexts\<close>; and before any
  save it answers three fields, not the defaults with their five texts.
\<close>

theorem getSettings_answers_file_unmerged:
  "fst (fst (DataService_saveSettings True sampleEnv (JObj [(''theme'', JStr ''dark'')])
               emptyStore))
   \<and> fst (fst (DataService_getSettings True
         (snd (DataService_saveSettings True sampleEnv (JObj [(''theme'', JStr ''dark'')])
                 emptyStore))))
       = JObj [(''theme'', JStr ''dark'')]
   \<and> getProp (JObj [(''theme'', JStr ''dark'')]) ''customTexts'' = Normal Undefined
   \<and> fst (fst (DataService_getSettings True emptyStore))
       = JObj [(''theme'', JStr ''light''), (''autoSave'', JBool True),
               (''showMoodOnCalendar'', JBool True)]
   \<and> getProp (fst (fst (DataService_getSettings True emptyStore))) ''customTexts''
       = Normal Undefined"
  by (simp add: saveSettings_result fits_theme_dark getSettings_result readJSONFile_def
        serverDefaultSettings_def sampleEnv_def emptyStore_def)

subsection \<open>Import\<close>

lemma importData_service_result:
  "DataService_importData online e raw s =
     (if online
      then ((ok (fst (express_json raw (post_api_import e) s)), []),
            snd (express_json raw (post_api_import e) s))
      else ((False, [ConsoleError ''Error importing data:'']), s))"
  by (simp add: DataService_importData_def fetch_def split: prod.splits)

lemma express_json_refused:
  assumes "0 < bytes raw"
    and "102400 < bytes raw \<or> (\<forall>v. parsed raw = Some v \<longrightarrow> \<not> isObjectOrArray v)"
  shows "\<not> ok (fst (express_json raw route s))" and "snd (express_json raw route s) = s"
  using assms by (auto simp: express_json_def not_ok_refusals split: option.splits)

lemma express_json_empty:
  "bytes raw = 0 \<Longrightarrow> express_json raw route s = route (JObj []) s"
  by (simp add: express_json_def)

lemma express_json_passed:
  "0 < bytes raw \<Longrightarrow> bytes raw \<le> 102400 \<Longrightarrow> parsed raw = Some v \<Longrightarrow> isObjectOrArray v \<Longrightarrow>
   express_json raw route s = route v s"
  by (simp add: express_json_def)

lemma import_ok:
  "isObjectOrArray v \<Longrightarrow>
   fst (post_api_import e v s) = res_json (message ''Data imported successfully'')"
  by (cases v) (simp_all add: post_api_import_def Let_def)

lemma import_empty_object: "snd (post_api_import e (JObj []) s) = s"
  by (simp add: post_api_import_def)

lemma import_rejected:
  assumes "0 < bytes raw"
    and "102400 < bytes raw \<or> (\<forall>v. parsed raw = Some v \<longrightarrow> \<not> isObjectOrArray v)"
  shows "\<not> fst (fst (DataService_importData online e raw s))"
    and "snd (DataService_importData online e raw s) = s"
  using express_json_refused [OF assms, of "post_api_import e" s]
  by (simp_all add: importData_service_result)

lemma import_accepted:
  assumes "online"
    and "bytes raw = 0
         \<or> bytes raw \<le> 102400 \<and> (\<exists>v. parsed raw = Some v \<and> isObjectOrArray v)"
  shows "DataService_importData online e raw s
           = ((True, []), snd (DataService_importData online e raw s))"
proof (cases "bytes raw = 0")
  case True
  then show ?thesis
    using assms(1) import_ok [of "JObj []" e s]
    by (simp add: importData_service_result express_json_empty not_ok_refusals)
next
  case False
  with assms(2) obtain v where "bytes raw \<le> 102400" "parsed raw = Some v" "isObjectOrArray v"
    by auto
  with False have "express_json raw (post_api_import e) s = post_api_import e v s"
    by (simp add: express_json_passed)
  then show ?thesis
    using assms(1) import_ok [OF \<open>isObjectOrArray v\<close>, of e s]
    by (simp add: importData_service_result not_ok_refusals)
qed

lemma settingsEffect_result:
  "settingsEffect online e v s =
     (if online then [] else [ConsoleError ''Error saving settings:''],
      snd (DataService_saveSettings online e v s))"
  by (simp add: settingsEffect_def saveSettings_result split: outcome.splits)

lemma loadData_events:
  "Alert a \<notin> set (snd (fst (loadData online1 online2 online3 e3 (s, st))))"
  by (auto simp: loadData_result settingsEffect_result getEntries_result getSettings_result
        split: completion.splits)

lemma importData_result:
  "importData online e online1 online2 online3 e3 raw (s, st) =
     (if fst (fst (DataService_importData online e raw s))
      then ((fst (fst (loadData online1 online2 online3 e3
                         (snd (DataService_importData online e raw s), st))),
             snd (fst (DataService_importData online e raw s))
               @ snd (fst (loadData online1 online2 online3 e3
                             (snd (DataService_importData online e raw s), st)))
               @ [Alert ImportSucceeded]),
            snd (loadData online1 online2 online3 e3
                   (snd (DataService_importData online e raw s), st)))
      else ((st, snd (fst (DataService_importData online e raw s)) @ [Alert ImportFailed]),
            snd (DataService_importData online e raw s)))"
  by (simp add: importData_def split: prod.splits)

text \<open>
  Claim C8, as the code has it. The only check of an import payload is the server's
  body parser. A payload that is not empty and is longer than 100kb, or is not JSON, or
  is JSON but neither an object nor an array, is turned away before the import route
  runs: \<open>importData\<close> ends with the failure message, and neither file nor the mirror
  changes. The empty text, and every object or array of at most 100kb, is never refused
  for its shape: with the server reachable the import answers success, the message is
  the one of success, and the mirror and the store afterwards are those that the reload
  leaves, the settings effect included. The import request itself writes nothing for the
  empty text; for an object, a member \<open>entries\<close> or \<open>settings\<close> that is absent or
  falsy leaves its file as it was, and any other value of a member is in the file as it
  is once the write has completed.
\<close>

theorem importData_refuses_only_unparsed_payloads:
  "(0 < bytes raw
      \<and> (102400 < bytes raw \<or> (\<forall>v. parsed raw = Some v \<longrightarrow> \<not> isObjectOrArray v)) \<longrightarrow>
      fst (fst (importData online e online1 online2 online3 e3 raw (s, st))) = st
    \<and> snd (importData online e online1 online2 online3 e3 raw (s, st)) = s
    \<and> last (snd (fst (importData online e online1 online2 online3 e3 raw (s, st))))
        = Alert ImportFailed
    \<and> Alert ImportSucceeded
        \<notin> set (snd (fst (importData online e online1 online2 online3 e3 raw (s, st)))))
   \<and> (online
        \<and> (bytes raw = 0
            \<or> bytes raw \<le> 102400 \<and> (\<exists>v. parsed raw = Some v \<and> isObjectOrArray v)) \<longrightarrow>
        fst (fst (DataService_importData online e raw s))
      \<and> Alert ImportSucceeded
          \<in> set (snd (fst (importData online e online1 online2 online3 e3 raw (s, st))))
      \<and> Alert ImportFailed
          \<notin> set (snd (fst (importData online e online1 online2 online3 e3 raw (s, st))))
      \<and> fst (fst (importData online e online1 online2 online3 e3 raw (s, st)))
          = fst (fst (loadData online1 online2 online3 e3
                        (snd (DataService_importData online e raw s), st)))
      \<and> snd (importData online e online1 online2 online3 e3 raw (s, st))
          = snd (loadData online1 online2 online3 e3
                   (snd (DataService_importData online e raw s), st)))
   \<and> (bytes raw = 0 \<longrightarrow> snd (DataService_importData online e raw s) = s)
   \<and> (0 < bytes raw \<and> bytes raw \<le> 102400 \<and> parsed raw = Some (JObj kvs) \<longrightarrow>
        ((\<forall>v. map_of kvs ''entries'' = Some v \<longrightarrow> \<not> truthy v) \<longrightarrow>
           entriesFile (snd (DataService_importData online e raw s)) = entriesFile s)
      \<and> ((\<forall>v. map_of kvs ''settings'' = Some v \<longrightarrow> \<not> truthy v) \<longrightarrow>
           settingsFile (snd (DataService_importData online e raw s)) = settingsFile s)
      \<and> (\<forall>v. online \<and> disk e ENTRIES_FILE = Written
               \<and> map_of kvs ''entries'' = Some v \<and> truthy v \<longrightarrow>
           entriesFile (snd (DataService_importData online e raw s)) = Some v)
      \<and> (\<forall>v. online \<and> disk e SETTINGS_FILE = Written
               \<and> map_of kvs ''settings'' = Some v \<and> truthy v \<longrightarrow>
           settingsFile (snd (DataService_importData online e raw s)) = Some v))"
proof (intro conjI)
  show "0 < bytes raw
      \<and> (102400 < bytes raw \<or> (\<forall>v. parsed raw = Some v \<longrightarrow> \<not> isObjectOrArray v)) \<longrightarrow>
      fst (fst (importData online e online1 online2 online3 e3 raw (s, st))) = st
    \<and> snd (importData online e online1 online2 online3 e3 raw (s, st)) = s
    \<and> last (snd (fst (importData online e online1 online2 online3 e3 raw (s, st))))
        = Alert ImportFailed
    \<and> Alert ImportSucceeded
        \<notin> set (snd (fst (importData online e online1 online2 online3 e3 raw (s, st))))"
  proof
    assume rej: "0 < bytes raw
      \<and> (102400 < bytes raw \<or> (\<forall>v. parsed raw = Some v \<longrightarrow> \<not> isObjectOrArray v))"
    note r = import_rejected [OF rej [THEN conjunct1] rej [THEN conjunct2], of online e s]
    have run: "importData online e online1 online2 online3 e3 raw (s, st)
                 = ((st, snd (fst (DataService_importData online e raw s))
                           @ [Alert ImportFailed]), s)"
      using r by (simp add: importData_result)
    have quiet: "Alert ImportSucceeded \<notin> set (snd (fst (DataService_importData online e raw s)))"
      by (simp add: importData_service_result)
    show "fst (fst (importData online e online1 online2 online3 e3 raw (s, st))) = st
      \<and> snd (importData online e online1 online2 online3 e3 raw (s, st)) = s
      \<and> last (snd (fst (importData online e online1 online2 online3 e3 raw (s, st))))
          = Alert ImportFailed
      \<and> Alert ImportSucceeded
          \<notin> set (snd (fst (importData online e online1 online2 online3 e3 raw (s, st))))"
      using quiet by (simp add: run)
  qed
next
  show "online
        \<and> (bytes raw = 0
            \<or> bytes raw \<le> 102400 \<and> (\<exists>v. parsed raw = Some v \<and> isObjectOrArray v)) \<longrightarrow>
        fst (fst (DataService_importData online e raw s))
      \<and> Alert ImportSucceeded
          \<in> set (snd (fst (importData online e online1 online2 online3 e3 raw (s, st))))
      \<and> Alert ImportFailed
          \<notin> set (snd (fst (importData online e online1 online2 online3 e3 raw (s, st))))
      \<and> fst (fst (importData online e online1 online2 online3 e3 raw (s, st)))
          = fst (fst (loadData online1 online2 online3 e3
                        (snd (DataService_importData online e raw s), st)))
      \<and> snd (importData online e online1 online2 online3 e3 raw (s, st))
          = snd (loadData online1 online2 online3 e3
                   (snd (DataService_importData online e raw s), st))"
  proof
    assume acc: "online
        \<and> (bytes raw = 0
            \<or> bytes raw \<le> 102400 \<and> (\<exists>v. parsed raw = Some v \<and> isObjectOrArray v))"
    note a = import_accepted [OF acc [THEN conjunct1] acc [THEN conjunct2], of e s]
    have ok: "fst (fst (DataService_importData online e raw s))"
      and quiet: "snd (fst (DataService_importData online e raw s)) = []"
      using a by (cases "DataService_importData online e raw s", auto)+
    have run: "importData online e online1 online2 online3 e3 raw (s, st)
       = ((fst (fst (loadData online1 online2 online3 e3
                       (snd (DataService_importData online e raw s), st))),
           snd (fst (loadData online1 online2 online3 e3
                       (snd (DataService_importData online e raw s), st)))
             @ [Alert ImportSucceeded]),
          snd (loadData online1 online2 online3 e3
                 (snd (DataService_importData online e raw s), st)))"
      using ok quiet by (simp add: importData_result)
    show "fst (fst (DataService_importData online e raw s))
      \<and> Alert ImportSucceeded
          \<in> set (snd (fst (importData online e online1 online2 online3 e3 raw (s, st))))
      \<and> Alert ImportFailed
          \<notin> set (snd (fst (importData online e online1 online2 online3 e3 raw (s, st))))
      \<and> fst (fst (importData online e online1 online2 online3 e3 raw (s, st)))
          = fst (fst (loadData online1 online2 online3 e3
                        (snd (DataService_importData online e raw s), st)))
      \<and> snd (importData online e online1 online2 online3 e3 raw (s, st))
          = snd (loadData online1 online2 online3 e3
                   (snd (DataService_importData online e raw s), st))"
      using ok by (simp add: run loadData_events)
  qed
next
  show "bytes raw = 0 \<longrightarrow> snd (DataService_importData online e raw s) = s"
    by (simp add: importData_service_result express_json_empty import_empty_object)
next
  show "0 < bytes raw \<and> bytes raw \<le> 102400 \<and> parsed raw = Some (JObj kvs) \<longrightarrow>
        ((\<forall>v. map_of kvs ''entries'' = Some v \<longrightarrow> \<not> truthy v) \<longrightarrow>
           entriesFile (snd (DataService_importData online e raw s)) = entriesFile s)
      \<and> ((\<forall>v. map_of kvs ''settings'' = Some v \<longrightarrow> \<not> truthy v) \<longrightarrow>
           settingsFile (snd (DataService_importData online e raw s)) = settingsFile s)
      \<and> (\<forall>v. online \<and> disk e ENTRIES_FILE = Written
               \<and> map_of kvs ''entries'' = Some v \<and> truthy v \<longrightarrow>
           entriesFile (snd (DataService_importData online e raw s)) = Some v)
      \<and> (\<forall>v. online \<and> disk e SETTINGS_FILE = Written
               \<and> map_of kvs ''settings'' = Some v \<and> truthy v \<longrightarrow>
           settingsFile (snd (DataService_importData online e raw s)) = Some v)"
  proof
    assume obj: "0 < bytes raw \<and> bytes raw \<le> 102400 \<and> parsed raw = Some (JObj kvs)"
    then have route: "express_json raw (post_api_import e) s = post_api_import e (JObj kvs) s"
      by (simp add: express_json_passed)
    have after: "snd (DataService_importData online e raw s)
                   = (if online then snd (post_api_import e (JObj kvs) s) else s)"
      by (simp add: importData_service_result route)
    show "((\<forall>v. map_of kvs ''entries'' = Some v \<longrightarrow> \<not> truthy v) \<longrightarrow>
           entriesFile (snd (DataService_importData online e raw s)) = entriesFile s)
      \<and> ((\<forall>v. map_of kvs ''settings'' = Some v \<longrightarrow> \<not> truthy v) \<longrightarrow>
           settingsFile (snd (DataService_importData online e raw s)) = settingsFile s)
      \<and> (\<forall>v. online \<and> disk e ENTRIES_FILE = Written
               \<and> map_of kvs ''entries'' = Some v \<and> truthy v \<longrightarrow>
           entriesFile (snd (DataService_importData online e raw s)) = Some v)
      \<and> (\<forall>v. online \<and> disk e SETTINGS_FILE = Written
               \<and> map_of kvs ''settings'' = Some v \<and> truthy v \<longrightarrow>
           settingsFile (snd (DataService_importData online e raw s)) = Some v)"
      unfolding after
      by (auto simp: import_object_entriesFile import_object_settingsFile split: option.splits)
  qed
qed

lemma fits_defaultSettings: "fits (JObj defaultSettings)"
  by (simp add: fits_def defaultSettings_def defaultCustomTexts_def appTitle_default_def
        appSubtitle_default_def heroTitle_default_def heroSubtitle_default_def
        startButtonText_default_def quote_def)

lemma effect_defaultSettings:
  "settingsEffect True sampleEnv (JObj defaultSettings) s
     = ([], s\<lparr>settingsFile := Some (JObj defaultSettings)\<rparr>)"
  by (simp add: settingsEffect_result saveSettings_result fits_defaultSettings sampleEnv_def)

theorem importData_refuses_only_unparsed_payloads_witness:
  "fst (fst (importData True sampleEnv True True True sampleEnv
               \<lparr>bytes = 5, parsed = None\<rparr> (sampleStore, sampleState)))
     = sampleState
   \<and> snd (importData True sampleEnv True True True sampleEnv
            \<lparr>bytes = 5, parsed = None\<rparr> (sampleStore, sampleState)) = sampleStore
   \<and> last (snd (fst (importData True sampleEnv True True True sampleEnv
                       \<lparr>bytes = 5, parsed = None\<rparr> (sampleStore, sampleState))))
       = Alert ImportFailed
   \<and> snd (importData True sampleEnv True True True sampleEnv
            \<lparr>bytes = 200000, parsed = Some (JObj [(''entries'', JArr [])])\<rparr>
            (sampleStore, sampleState)) = sampleStore
   \<and> last (snd (fst (importData True sampleEnv True True True sampleEnv
                       \<lparr>bytes = 200000, parsed = Some (JObj [(''entries'', JArr [])])\<rparr>
                       (sampleStore, sampleState))))
       = Alert ImportFailed
   \<and> map_of [(''exportDate'', JStr ''2024-01-13T05:24:16.789Z'')] ''entries'' = None
   \<and> map_of [(''exportDate'', JStr ''2024-01-13T05:24:16.789Z'')] ''settings'' = None
   \<and> fst (fst (DataService_importData True sampleEnv
                 \<lparr>bytes = 41,
                  parsed = Some (JObj [(''exportDate'', JStr ''2024-01-13T05:24:16.789Z'')])\<rparr>
                 sampleStore))
   \<and> Alert ImportSucceeded
       \<in> set (snd (fst (importData True sampleEnv True True True sampleEnv
                 \<lparr>bytes = 41,
                  parsed = Some (JObj [(''exportDate'', JStr ''2024-01-13T05:24:16.789Z'')])\<rparr>
                 (sampleStore, sampleState))))
   \<and> entriesFile (snd (DataService_importData True sampleEnv
                 \<lparr>bytes = 41,
                  parsed = Some (JObj [(''exportDate'', JStr ''2024-01-13T05:24:16.789Z'')])\<rparr>
                 sampleStore))
       = entriesFile sampleStore
   \<and> settingsFile (snd (DataService_importData True sampleEnv
                 \<lparr>bytes = 41,
                  parsed = Some (JObj [(''exportDate'', JStr ''2024-01-13T05:24:16.789Z'')])\<rparr>
                 sampleStore))
       = settingsFile sampleStore"
proof -
  let ?kvs = "[(''exportDate'', JStr ''2024-01-13T05:24:16.789Z'')]"
  let ?r1 = "\<lparr>bytes = 5, parsed = None\<rparr> :: payload"
  let ?r2 = "\<lparr>bytes = 200000, parsed = Some (JObj [(''entries'', JArr [])])\<rparr>"
  let ?r3 = "\<lparr>bytes = 41, parsed = Some (JObj ?kvs)\<rparr>"
  have unparsed: "0 < bytes ?r1
      \<and> (102400 < bytes ?r1 \<or> (\<forall>v. parsed ?r1 = Some v \<longrightarrow> \<not> isObjectOrArray v))"
    by simp
  have toolong: "0 < bytes ?r2
      \<and> (102400 < bytes ?r2 \<or> (\<forall>v. parsed ?r2 = Some v \<longrightarrow> \<not> isObjectOrArray v))"
    by simp
  have through: "True
        \<and> (bytes ?r3 = 0
            \<or> bytes ?r3 \<le> 102400 \<and> (\<exists>v. parsed ?r3 = Some v \<and> isObjectOrArray v))"
    by simp
  have object: "0 < bytes ?r3 \<and> bytes ?r3 \<le> 102400 \<and> parsed ?r3 = Some (JObj ?kvs)"
    by simp
  have absent: "map_of ?kvs ''entries'' = None" "map_of ?kvs ''settings'' = None"
    by simp_all
  have nothing_truthy: "\<forall>v. map_of ?kvs ''entries'' = Some v \<longrightarrow> \<not> truthy v"
    "\<forall>v. map_of ?kvs ''settings'' = Some v \<longrightarrow> \<not> truthy v"
    by simp_all
  note refused1 =
    importData_refuses_only_unparsed_payloads
      [where raw = ?r1 and online = True and e = sampleEnv and ?online1.0 = True
         and ?online2.0 = True and ?online3.0 = True and ?e3.0 = sampleEnv and s = sampleStore
         and st = sampleState and kvs = ?kvs,
       THEN conjunct1, THEN mp, OF unparsed]
  note refused2 =
    importData_refuses_only_unparsed_payloads
      [where raw = ?r2 and online = True and e = sampleEnv and ?online1.0 = True
         and ?online2.0 = True and ?online3.0 = True and ?e3.0 = sampleEnv and s = sampleStore
         and st = sampleState and kvs = ?kvs,
       THEN conjunct1, THEN mp, OF toolong]
  note taken =
    importData_refuses_only_unparsed_payloads
      [where raw = ?r3 and online = True and e = sampleEnv and ?online1.0 = True
         and ?online2.0 = True and ?online3.0 = True and ?e3.0 = sampleEnv and s = sampleStore
         and st = sampleState and kvs = ?kvs,
       THEN conjunct2]
  note accepted = taken [THEN conjunct1, THEN mp, OF through]
  note written = taken [THEN conjunct2, THEN conjunct2, THEN mp, OF object]
  have r1: "fst (fst (importData True sampleEnv True True True sampleEnv ?r1
              (sampleStore, sampleState))) = sampleState"
    using refused1 by (rule conjunct1)
  have r2: "snd (importData True sampleEnv True True True sampleEnv ?r1
              (sampleStore, sampleState)) = sampleStore"
    using refused1 [THEN conjunct2] by (rule conjunct1)
  have r3: "last (snd (fst (importData True sampleEnv True True True sampleEnv ?r1
              (sampleStore, sampleState)))) = Alert ImportFailed"
    using refused1 [THEN conjunct2, THEN conjunct2] by (rule conjunct1)
  have l2: "snd (importData True sampleEnv True True True sampleEnv ?r2
              (sampleStore, sampleState)) = sampleStore"
    using refused2 [THEN conjunct2] by (rule conjunct1)
  have l3: "last (snd (fst (importData True sampleEnv True True True sampleEnv ?r2
              (sampleStore, sampleState)))) = Alert ImportFailed"
    using refused2 [THEN conjunct2, THEN conjunct2] by (rule conjunct1)
  have t1: "fst (fst (DataService_importData True sampleEnv ?r3 sampleStore))"
    using accepted by (rule conjunct1)
  have t2: "Alert ImportSucceeded
       \<in> set (snd (fst (importData True sampleEnv True True True sampleEnv ?r3
                          (sampleStore, sampleState))))"
    using accepted [THEN conjunct2] by (rule conjunct1)
  have t3: "entriesFile (snd (DataService_importData True sampleEnv ?r3 sampleStore))
              = entriesFile sampleStore"
    using written [THEN conjunct1, THEN mp, OF nothing_truthy(1)] .
  have t4: "settingsFile (snd (DataService_importData True sampleEnv ?r3 sampleStore))
              = settingsFile sampleStore"
    using written [THEN conjunct2, THEN conjunct1, THEN mp, OF nothing_truthy(2)] .
  from r1 r2 r3 l2 l3 absent t1 t2 t3 t4 show ?thesis by (intro conjI)
qed

text \<open>
  The claim as the specification words it fails. A payload that is JSON but has not the
  shape of an envelope is imported with the message of success, and what it calls
  \<open>entries\<close> replaces the stored collection whatever it is, while the reload that follows
  writes the merged default settings to the settings file. An empty object is answered
  with the message of success too; and so is the empty text, which is not JSON.
\<close>

theorem importData_accepts_malformed_envelope:
  "entriesFile sampleStore = Some (JArr [sampleEntry])
   \<and> settingsFile sampleStore = None
   \<and> importData True sampleEnv True True True sampleEnv
        \<lparr>bytes = 18, parsed = Some (JObj [(''entries'', JStr ''oops'')])\<rparr>
        (sampleStore, sampleState)
       = ((\<lparr>entries = JStr ''oops'', settings = JObj defaultSettings, isLoading = False\<rparr>,
           [Alert ImportSucceeded]),
          \<lparr>entriesFile = Some (JStr ''oops''), settingsFile = Some (JObj defaultSettings)\<rparr>)
   \<and> snd (fst (importData True sampleEnv True True True sampleEnv
                 \<lparr>bytes = 2, parsed = Some (JObj [])\<rparr> (sampleStore, sampleState)))
       = [Alert ImportSucceeded]
   \<and> snd (fst (importData True sampleEnv True True True sampleEnv
                 \<lparr>bytes = 0, parsed = None\<rparr> (sampleStore, sampleState)))
       = [Alert ImportSucceeded]"
proof -
  let ?bad = "\<lparr>bytes = 18, parsed = Some (JObj [(''entries'', JStr ''oops'')])\<rparr>"
  let ?s = "\<lparr>entriesFile = Some (JStr ''oops''), settingsFile = None\<rparr>"
  have cp: "getProp serverDefaultSettings ''customTexts'' = Normal Undefined"
    by (simp add: serverDefaultSettings_def)
  have s: "DataService_importData True sampleEnv ?bad sampleStore = ((True, []), ?s)"
    by (simp add: importData_service_result express_json_def post_api_import_def
          writeJSONFile_def res_json_def ok_def sampleStore_def sampleEnv_def)
  have l: "loadData True True True sampleEnv (?s, sampleState)
           = ((\<lparr>entries = JStr ''oops'', settings = JObj defaultSettings, isLoading = False\<rparr>,
               []),
              \<lparr>entriesFile = Some (JStr ''oops''), settingsFile = Some (JObj defaultSettings)\<rparr>)"
  proof -
    have ge: "DataService_getEntries True ?s = ((JStr ''oops'', []), ?s)"
      by (simp add: getEntries_result readJSONFile_def)
    have gs: "DataService_getSettings True ?s = ((serverDefaultSettings, []), ?s)"
      by (simp add: getSettings_result readJSONFile_def)
    show ?thesis
      by (simp add: loadData_result ge gs cp mergeSettings_serverDefault effect_defaultSettings
            sampleState_def)
  qed
  have a: "importData True sampleEnv True True True sampleEnv ?bad (sampleStore, sampleState)
       = ((\<lparr>entries = JStr ''oops'', settings = JObj defaultSettings, isLoading = False\<rparr>,
           [Alert ImportSucceeded]),
          \<lparr>entriesFile = Some (JStr ''oops''), settingsFile = Some (JObj defaultSettings)\<rparr>)"
    by (simp add: importData_result s l)
  have l0: "snd (fst (loadData True True True sampleEnv (sampleStore, sampleState))) = []"
  proof -
    have gs: "DataService_getSettings True sampleStore = ((serverDefaultSettings, []), sampleStore)"
      by (simp add: getSettings_result readJSONFile_def sampleStore_def)
    show ?thesis
      by (simp add: loadData_result gs cp getEntries_result mergeSettings_serverDefault
            effect_defaultSettings)
  qed
  have s0: "DataService_importData True sampleEnv \<lparr>bytes = 2, parsed = Some (JObj [])\<rparr>
              sampleStore = ((True, []), sampleStore)"
    by (simp add: importData_service_result express_json_def post_api_import_def
          res_json_def ok_def)
  have b: "snd (fst (importData True sampleEnv True True True sampleEnv
                 \<lparr>bytes = 2, parsed = Some (JObj [])\<rparr> (sampleStore, sampleState)))
             = [Alert ImportSucceeded]"
    by (simp add: importData_result s0 l0)
  have s1: "DataService_importData True sampleEnv \<lparr>bytes = 0, parsed = None\<rparr>
              sampleStore = ((True, []), sampleStore)"
    by (simp add: importData_service_result express_json_def post_api_import_def
          res_json_def ok_def)
  have c: "snd (fst (importData True sampleEnv True True True sampleEnv
                 \<lparr>bytes = 0, parsed = None\<rparr> (sampleStore, sampleState)))
             = [Alert ImportSucceeded]"
    by (simp add: importData_result s1 l0)
  have f1: "entriesFile sampleStore = Some (JArr [sampleEntry])"
    by (simp add: sampleStore_def)
  have f2: "settingsFile sampleStore = None"
    by (simp add: sampleStore_def)
  from f1 f2 a b c show ?thesis by (intro conjI)
qed

subsection \<open>Loading the mirror\<close>

lemma mergeSettings_clientDefault:
  "mergeSettings (JObj defaultSettings) (Json (JObj defaultCustomTexts)) = JObj defaultSettings"
  by (simp add: mergeSettings_def defaultSettings_def defaultCustomTexts_def)

lemma getProp_defaultSettings_customTexts:
  "getProp (JObj defaultSettings) ''customTexts'' = Normal (Json (JObj defaultCustomTexts))"
  by (simp add: defaultSettings_def)

lemma loadData_entries:
  "entries (fst (fst (loadData online1 online2 online3 e3 (s, st))))
     = fst (fst (DataService_getEntries online1 s))"
  by (simp add: loadData_result split: completion.splits)

lemma loadData_isLoading: "isLoading (fst (fst (loadData online1 online2 online3 e3 (s, st)))) = False"
  by (simp add: loadData_result split: completion.splits)

lemma loadData_log_entries:
  "set (snd (fst (DataService_getEntries online1 s)))
     \<subseteq> set (snd (fst (loadData online1 online2 online3 e3 (s, st))))"
  by (auto simp: loadData_result split: completion.splits)

lemma loadData_log_settings:
  "set (snd (fst (DataService_getSettings online2 s)))
     \<subseteq> set (snd (fst (loadData online1 online2 online3 e3 (s, st))))"
  by (auto simp: loadData_result split: completion.splits)

text \<open>
  Claim C9, as the code has it. A fetch that fails never reaches \<open>loadData\<close> as a
  failure: \<open>DataService.getEntries\<close> logs it and returns the empty list, and
  \<open>DataService.getSettings\<close> logs it and returns the default settings. \<open>loadData\<close> then
  puts what it was given in place of the mirror: after a failed fetch of the entries the
  mirrored entries are the empty list, after a failed fetch of the settings the mirrored
  settings are the defaults. When the fetch of the entries goes through, the mirror holds
  what the store answered. The busy flag ends \<open>false\<close>.
\<close>

theorem loadData_replaces_mirror_after_failed_fetch:
  "(\<not> online1 \<longrightarrow>
      entries (fst (fst (loadData online1 online2 online3 e3 (s, st)))) = JArr []
    \<and> ConsoleError ''Error fetching entries:''
        \<in> set (snd (fst (loadData online1 online2 online3 e3 (s, st)))))
   \<and> (\<not> online2 \<longrightarrow>
        settings (fst (fst (loadData online1 online2 online3 e3 (s, st)))) = JObj defaultSettings
      \<and> ConsoleError ''Error fetching settings:''
          \<in> set (snd (fst (loadData online1 online2 online3 e3 (s, st)))))
   \<and> (online1 \<longrightarrow>
        entries (fst (fst (loadData online1 online2 online3 e3 (s, st)))) = body (fst (get_api_entries s)))
   \<and> isLoading (fst (fst (loadData online1 online2 online3 e3 (s, st)))) = False"
proof (intro conjI impI)
  assume off: "\<not> online1"
  then show "entries (fst (fst (loadData online1 online2 online3 e3 (s, st)))) = JArr []"
    by (simp add: loadData_entries getEntries_result)
  from off have "ConsoleError ''Error fetching entries:''
                   \<in> set (snd (fst (DataService_getEntries online1 s)))"
    by (simp add: getEntries_result)
  with loadData_log_entries [of online1 s online2 online3 e3 st]
  show "ConsoleError ''Error fetching entries:''
          \<in> set (snd (fst (loadData online1 online2 online3 e3 (s, st))))"
    by blast
next
  assume off: "\<not> online2"
  then have gs: "DataService_getSettings online2 s
                   = ((JObj defaultSettings, [ConsoleError ''Error fetching settings:'']), s)"
    by (simp add: getSettings_result)
  then have "getProp (fst (fst (DataService_getSettings online2 s))) ''customTexts''
               = Normal (Json (JObj defaultCustomTexts))"
    by (simp only: fst_conv getProp_defaultSettings_customTexts)
  with gs show "settings (fst (fst (loadData online1 online2 online3 e3 (s, st)))) = JObj defaultSettings"
    by (simp add: loadData_result mergeSettings_clientDefault del: getProp.simps)
  from gs have "ConsoleError ''Error fetching settings:''
                   \<in> set (snd (fst (DataService_getSettings online2 s)))"
    by simp
  with loadData_log_settings [of online2 s online1 online3 e3 st]
  show "ConsoleError ''Error fetching settings:''
          \<in> set (snd (fst (loadData online1 online2 online3 e3 (s, st))))"
    by blast
next
  assume "online1"
  then show "entries (fst (fst (loadData online1 online2 online3 e3 (s, st))))
               = body (fst (get_api_entries s))"
    by (simp add: loadData_entries getEntries_result get_api_entries_def res_json_def)
next
  show "isLoading (fst (fst (loadData online1 online2 online3 e3 (s, st)))) = False"
    by (rule loadData_isLoading)
qed

theorem loadData_replaces_mirror_after_failed_fetch_witness:
  "entries sampleState = JArr [sampleEntry]
   \<and> entries (fst (fst (loadData False False True sampleEnv (sampleStore, sampleState)))) = JArr []
   \<and> settings (fst (fst (loadData False False True sampleEnv (sampleStore, sampleState)))) = JObj defaultSettings
   \<and> ConsoleError ''Error fetching entries:''
       \<in> set (snd (fst (loadData False False True sampleEnv (sampleStore, sampleState))))
   \<and> entries (fst (fst (loadData True True True sampleEnv (sampleStore, sampleState))))
       = body (fst (get_api_entries sampleStore))
   \<and> body (fst (get_api_entries sampleStore)) = JArr [sampleEntry]"
proof -
  note down = loadData_replaces_mirror_after_failed_fetch [of False False True sampleEnv sampleStore sampleState]
  note up = loadData_replaces_mirror_after_failed_fetch [of True True True sampleEnv sampleStore sampleState]
  have m: "entries sampleState = JArr [sampleEntry]"
    by (simp add: sampleState_def)
  have d1: "entries (fst (fst (loadData False False True sampleEnv (sampleStore, sampleState)))) = JArr []"
    using down [THEN conjunct1] by simp
  have d2: "ConsoleError ''Error fetching entries:''
              \<in> set (snd (fst (loadData False False True sampleEnv (sampleStore, sampleState))))"
    using down [THEN conjunct1] by simp
  have d3: "settings (fst (fst (loadData False False True sampleEnv (sampleStore, sampleState))))
              = JObj defaultSettings"
    using down [THEN conjunct2, THEN conjunct1] by simp
  have u1: "entries (fst (fst (loadData True True True sampleEnv (sampleStore, sampleState))))
              = body (fst (get_api_entries sampleStore))"
    using up [THEN conjunct2, THEN conjunct2, THEN conjunct1] by simp
  have u2: "body (fst (get_api_entries sampleStore)) = JArr [sampleEntry]"
    by (simp add: get_api_entries_def res_json_def readJSONFile_def sampleStore_def)
  from m d1 d3 d2 u1 u2 show ?thesis by (intro conjI)
qed

text \<open>
  The claim as the specification words it fails: with the server out of reach for the
  entries, \<open>loadData\<close> replaces a mirror that held a record by the empty list, while the
  store still holds the record.
\<close>

theorem loadData_empties_mirror_on_failed_fetch:
  "entries sampleState = JArr [sampleEntry]
   \<and> entriesFile sampleStore = Some (JArr [sampleEntry])
   \<and> loadData False True True sampleEnv (sampleStore, sampleState)
       = ((\<lparr>entries = JArr [], settings = JObj defaultSettings, isLoading = False\<rparr>,
           [ConsoleError ''Error fetching entries:'']),
          \<lparr>entriesFile = Some (JArr [sampleEntry]),
           settingsFile = Some (JObj defaultSettings)\<rparr>)"
proof -
  have gs: "DataService_getSettings True sampleStore = ((serverDefaultSettings, []), sampleStore)"
    by (simp add: getSettings_result readJSONFile_def sampleStore_def)
  have cp: "getProp serverDefaultSettings ''customTexts'' = Normal Undefined"
    by (simp add: serverDefaultSettings_def)
  have run0: "loadData False True True sampleEnv (sampleStore, sampleState)
       = ((\<lparr>entries = JArr [], settings = JObj defaultSettings, isLoading = False\<rparr>,
           [ConsoleError ''Error fetching entries:'']),
          sampleStore\<lparr>settingsFile := Some (JObj defaultSettings)\<rparr>)"
    by (simp add: loadData_result gs cp getEntries_result mergeSettings_serverDefault
          effect_defaultSettings sampleState_def)
  have after: "sampleStore\<lparr>settingsFile := Some (JObj defaultSettings)\<rparr>
                 = \<lparr>entriesFile = Some (JArr [sampleEntry]),
                    settingsFile = Some (JObj defaultSettings)\<rparr>"
    by (simp add: sampleStore_def)
  have run: "loadData False True True sampleEnv (sampleStore, sampleState)
       = ((\<lparr>entries = JArr [], settings = JObj defaultSettings, isLoading = False\<rparr>,
           [ConsoleError ''Error fetching entries:'']),
          \<lparr>entriesFile = Some (JArr [sampleEntry]),
           settingsFile = Some (JObj defaultSettings)\<rparr>)"
    using run0 by (simp only: after)
  have m: "entries sampleState = JArr [sampleEntry]"
    by (simp add: sampleState_def)
  have f: "entriesFile sampleStore = Some (JArr [sampleEntry])"
    by (simp add: sampleStore_def)
  from m f run show ?thesis by (intro conjI)
qed

end
